theory Spec2Isabelle
  imports Complex_Main "HOL-Library.Word" "HOL-Library.AList"
begin

section \<open>JavaScript strings and buffers\<close>

text \<open>
  The program is the serverless handler of \<^verbatim>\<open>src/api/server.js\<close>, lines 1 to 249. (The text
  that follows the handler's closing brace in that file is a stray second copy of part of
  the handler and is not modelled.)

  A JavaScript string is a sequence of UTF-16 code units; a \<^verbatim>\<open>Buffer\<close> is a sequence of
  bytes. String literals of the source are ASCII and are written \<open>js ''...''\<close>.
\<close>

type_synonym byte = "8 word"
type_synonym jschar = "16 word"
type_synonym jsstring = "jschar list"

definition js :: "string \<Rightarrow> jsstring" where
  "js s = map of_char s"

definition nl :: jschar where
  "nl = 10"

text \<open>\<^verbatim>\<open>s.startsWith(p)\<close> and \<^verbatim>\<open>s.includes(p)\<close>.\<close>

fun startsWith :: "jsstring \<Rightarrow> jsstring \<Rightarrow> bool" where
  "startsWith s [] = True"
| "startsWith [] (p # ps) = False"
| "startsWith (c # cs) (p # ps) = (c = p \<and> startsWith cs ps)"

fun str_includes :: "jsstring \<Rightarrow> jsstring \<Rightarrow> bool" where
  "str_includes [] p = (p = [])"
| "str_includes (c # cs) p = (startsWith (c # cs) p \<or> str_includes cs p)"

text \<open>
  \<^verbatim>\<open>s.split('\n')\<close>: the pieces between the newlines, in order; the result always has at
  least one element (the empty string gives one empty piece).
\<close>

fun split_nl :: "jsstring \<Rightarrow> jsstring list" where
  "split_nl [] = [[]]"
| "split_nl (c # cs) =
     (if c = nl then [] # split_nl cs
      else (case split_nl cs of [] \<Rightarrow> [[c]] | p # ps \<Rightarrow> (c # p) # ps))"

subsection \<open>\<^verbatim>\<open>chunk.toString()\<close>: UTF-8 decoding of one buffer\<close>

text \<open>
  A chunk of the backend stream is a \<^verbatim>\<open>Buffer\<close>; line 135 decodes each chunk on its own with
  \<^verbatim>\<open>chunk.toString()\<close>. Node decodes UTF-8 and replaces every ill-formed or truncated byte
  sequence by U+FFFD. The decoder below is the UTF-8 decoder of the WHATWG Encoding
  standard, which Node follows: a state machine over the bytes, flushed at the end of the
  buffer. Code points above U+FFFF become a surrogate pair.
\<close>

record utf8_state =
  code_point :: nat
  bytes_seen :: nat
  bytes_needed :: nat
  lower_boundary :: nat
  upper_boundary :: nat

definition utf8_idle :: utf8_state where
  "utf8_idle = \<lparr>code_point = 0, bytes_seen = 0, bytes_needed = 0,
                 lower_boundary = 0x80, upper_boundary = 0xBF\<rparr>"

definition utf16 :: "nat \<Rightarrow> jsstring" where
  "utf16 c =
     (if c < 0x10000 then [of_nat c]
      else [of_nat (0xD800 + (c - 0x10000) div 1024), of_nat (0xDC00 + (c - 0x10000) mod 1024)])"

definition utf8_lead :: "byte \<Rightarrow> jsstring \<times> utf8_state" where
  "utf8_lead b =
     (let n = unat b in
      if n \<le> 0x7F then ([of_nat n], utf8_idle)
      else if 0xC2 \<le> n \<and> n \<le> 0xDF then
        ([], \<lparr>code_point = n mod 32, bytes_seen = 0, bytes_needed = 1,
               lower_boundary = 0x80, upper_boundary = 0xBF\<rparr>)
      else if 0xE0 \<le> n \<and> n \<le> 0xEF then
        ([], \<lparr>code_point = n mod 16, bytes_seen = 0, bytes_needed = 2,
               lower_boundary = (if n = 0xE0 then 0xA0 else 0x80),
               upper_boundary = (if n = 0xED then 0x9F else 0xBF)\<rparr>)
      else if 0xF0 \<le> n \<and> n \<le> 0xF4 then
        ([], \<lparr>code_point = n mod 8, bytes_seen = 0, bytes_needed = 3,
               lower_boundary = (if n = 0xF0 then 0x90 else 0x80),
               upper_boundary = (if n = 0xF4 then 0x8F else 0xBF)\<rparr>)
      else ([0xFFFD], utf8_idle))"

definition utf8_step :: "utf8_state \<Rightarrow> byte \<Rightarrow> jsstring \<times> utf8_state" where
  "utf8_step st b =
     (if bytes_needed st = 0 then utf8_lead b
      else if unat b < lower_boundary st \<or> upper_boundary st < unat b then
        (let (out, st') = utf8_lead b in (0xFFFD # out, st'))
      else
        (let c = code_point st * 64 + unat b mod 64 in
         if bytes_seen st + 1 = bytes_needed st then (utf16 c, utf8_idle)
         else ([], \<lparr>code_point = c, bytes_seen = bytes_seen st + 1,
                     bytes_needed = bytes_needed st,
                     lower_boundary = 0x80, upper_boundary = 0xBF\<rparr>)))"

fun utf8_run :: "utf8_state \<Rightarrow> byte list \<Rightarrow> jsstring" where
  "utf8_run st [] = (if bytes_needed st = 0 then [] else [0xFFFD])"
| "utf8_run st (b # bs) = (let (out, st') = utf8_step st b in out @ utf8_run st' bs)"

definition Buffer_toString :: "byte list \<Rightarrow> jsstring" where
  "Buffer_toString bs = utf8_run utf8_idle bs"

section \<open>JavaScript values\<close>

text \<open>
  The values the handler computes with: what \<^verbatim>\<open>JSON.parse\<close> returns, and \<^verbatim>\<open>undefined\<close>, which
  a property read gives when it finds nothing. An object keeps its properties in insertion
  order. A number is the rational its numeral denotes (rounding to a double is not
  modelled; the two zeros are one value, both are falsy and both print as \<^verbatim>\<open>0\<close>).
\<close>

datatype jsval =
  JUndefined
| JNull
| JBool bool
| JNum rat
| JStr jsstring
| JArr "jsval list"
| JObj "(jsstring \<times> jsval) list"

text \<open>Truthiness, as tested by \<^verbatim>\<open>if (v)\<close>, \<^verbatim>\<open>!v\<close>, \<^verbatim>\<open>v && w\<close> and \<^verbatim>\<open>v || w\<close>.\<close>

fun truthy :: "jsval \<Rightarrow> bool" where
  "truthy JUndefined = False"
| "truthy JNull = False"
| "truthy (JBool b) = b"
| "truthy (JNum n) = (n \<noteq> 0)"
| "truthy (JStr s) = (s \<noteq> [])"
| "truthy (JArr xs) = True"
| "truthy (JObj kvs) = True"

text \<open>\<^verbatim>\<open>v || d\<close>.\<close>

definition or_else :: "jsval \<Rightarrow> jsval \<Rightarrow> jsval" where
  "or_else v d = (if truthy v then v else d)"

text \<open>
  \<^verbatim>\<open>v.name\<close> on a value that is neither \<^verbatim>\<open>null\<close> nor \<^verbatim>\<open>undefined\<close>, for the property names the
  handler reads (\<^verbatim>\<open>choices\<close>, \<^verbatim>\<open>delta\<close>, \<^verbatim>\<open>content\<close>, \<^verbatim>\<open>reasoning_content\<close>, \<^verbatim>\<open>message\<close>, ...):
  an object gives its own property, every other value gives \<^verbatim>\<open>undefined\<close> (none of these
  names is a member of a prototype).
\<close>

fun get_prop :: "jsval \<Rightarrow> jsstring \<Rightarrow> jsval" where
  "get_prop (JObj kvs) k = (case map_of kvs k of None \<Rightarrow> JUndefined | Some v \<Rightarrow> v)"
| "get_prop v k = JUndefined"

text \<open>\<^verbatim>\<open>name in v\<close> for an object's own properties.\<close>

fun has_prop :: "jsval \<Rightarrow> jsstring \<Rightarrow> bool" where
  "has_prop (JObj kvs) k = (map_of kvs k \<noteq> None)"
| "has_prop v k = False"

text \<open>
  \<^verbatim>\<open>v.name = w\<close> and \<^verbatim>\<open>delete v.name\<close>. On an object the property is replaced in place or added
  at the end, or removed. On a string, number or boolean the assignment does nothing (the
  module is not in strict mode); on an array it adds a named property that
  \<^verbatim>\<open>JSON.stringify\<close> does not print. So only objects change.
\<close>

fun set_prop :: "jsval \<Rightarrow> jsstring \<Rightarrow> jsval \<Rightarrow> jsval" where
  "set_prop (JObj kvs) k w = JObj (AList.update k w kvs)"
| "set_prop v k w = v"

fun delete_prop :: "jsval \<Rightarrow> jsstring \<Rightarrow> jsval" where
  "delete_prop (JObj kvs) k = JObj (AList.delete k kvs)"
| "delete_prop v k = v"

text \<open>
  \<^verbatim>\<open>v?.[0]\<close>: element 0 of an array, property \<^verbatim>\<open>"0"\<close> of an object, the first code unit of a
  string; \<^verbatim>\<open>undefined\<close> on \<^verbatim>\<open>null\<close> and \<^verbatim>\<open>undefined\<close>.
\<close>

fun index0 :: "jsval \<Rightarrow> jsval" where
  "index0 (JArr (x # xs)) = x"
| "index0 (JObj kvs) = get_prop (JObj kvs) (js ''0'')"
| "index0 (JStr (c # cs)) = JStr [c]"
| "index0 v = JUndefined"

text \<open>\<^verbatim>\<open>v?.name\<close>.\<close>

fun get_prop_opt :: "jsval \<Rightarrow> jsstring \<Rightarrow> jsval" where
  "get_prop_opt JUndefined k = JUndefined"
| "get_prop_opt JNull k = JUndefined"
| "get_prop_opt v k = get_prop v k"

text \<open>
  What the language's library does and the repository does not define is a parameter:
  \<^verbatim>\<open>JSON.parse\<close> (\<open>None\<close> when it throws), \<^verbatim>\<open>JSON.stringify\<close>, the printing of a number,
  \<^verbatim>\<open>String.prototype.toLowerCase\<close>, the successive values of \<^verbatim>\<open>Date.now()\<close> and the message
  text of a \<^verbatim>\<open>TypeError\<close> raised by the engine.
\<close>

record js_env =
  JSON_parse :: "jsstring \<Rightarrow> jsval option"
  JSON_stringify :: "jsval \<Rightarrow> jsstring"
  Number_toString :: "rat \<Rightarrow> jsstring"
  toLowerCase :: "jsstring \<Rightarrow> jsstring"
  Date_now :: "nat \<Rightarrow> nat"
  TypeError_message :: jsstring

text \<open>
  The string a value becomes when it is concatenated to a string with \<^verbatim>\<open>+\<close> or used as a
  property key: an array joins its elements with commas (\<^verbatim>\<open>null\<close> and \<^verbatim>\<open>undefined\<close> elements
  print empty), an object prints as \<^verbatim>\<open>[object Object]\<close>. (An object that has a property of
  its own named \<^verbatim>\<open>toString\<close> cannot be converted: the conversion throws. No such object
  occurs in what follows, and the case is not modelled.)
\<close>

fun join_comma :: "jsstring list \<Rightarrow> jsstring" where
  "join_comma [] = []"
| "join_comma [s] = s"
| "join_comma (s # t # ss) = s @ js '','' @ join_comma (t # ss)"

fun to_str :: "js_env \<Rightarrow> jsval \<Rightarrow> jsstring" where
  "to_str env JUndefined = js ''undefined''"
| "to_str env JNull = js ''null''"
| "to_str env (JBool b) = (if b then js ''true'' else js ''false'')"
| "to_str env (JNum n) = Number_toString env n"
| "to_str env (JStr s) = s"
| "to_str env (JArr xs) =
     join_comma (map (\<lambda>x. if x = JNull \<or> x = JUndefined then [] else to_str env x) xs)"
| "to_str env (JObj kvs) = js ''[object Object]''"

section \<open>Configuration\<close>

text \<open>
  The two process-wide toggles are constants of the source (lines 9 and 12), both
  \<^verbatim>\<open>false\<close>. The handler is modelled for either setting, so that the branch that shows the
  reasoning can be examined; \<open>source_config\<close> is the setting of the source as it stands.
\<close>

record config =
  SHOW_REASONING :: bool
  ENABLE_THINKING_MODE :: bool

definition source_config :: config where
  "source_config = \<lparr>SHOW_REASONING = False, ENABLE_THINKING_MODE = False\<rparr>"

section \<open>The stream handler (lines 131 to 188)\<close>

definition think_open :: jsstring where
  "think_open = js ''<think>'' @ [nl]"

definition think_close :: jsstring where
  "think_close = js ''</think>'' @ [nl, nl]"

text \<open>
  Lines 149 to 180, on the delta object: the new delta and the new \<^verbatim>\<open>reasoningStarted\<close>.
  \<open>combined1\<close> is \<^verbatim>\<open>combinedContent\<close> after the first \<^verbatim>\<open>if\<close> (lines 155 to 160), \<open>combined2\<close>
  after the second (lines 162 to 167). Both \<^verbatim>\<open>+=\<close> are string concatenations: at line 163
  the right operand is a string, and line 166 is reached only with \<^verbatim>\<open>combinedContent\<close> the
  empty string.
\<close>

definition splice :: "js_env \<Rightarrow> config \<Rightarrow> bool \<Rightarrow> jsval \<Rightarrow> jsval \<times> bool" where
  "splice env cfg reasoningStarted delta =
     (let reasoning = get_prop delta (js ''reasoning_content'');
          content = get_prop delta (js ''content'')
      in if SHOW_REASONING cfg then
           (let (combined1, started1) =
                  (if truthy reasoning \<and> \<not> reasoningStarted then
                     (JStr (think_open @ to_str env reasoning), True)
                   else if truthy reasoning then (reasoning, reasoningStarted)
                   else (JStr [], reasoningStarted));
                (combined2, started2) =
                  (if truthy content \<and> started1 then
                     (JStr (to_str env combined1 @ think_close @ to_str env content), False)
                   else if truthy content then
                     (JStr (to_str env combined1 @ to_str env content), started1)
                   else (combined1, started1))
            in if truthy combined2 then
                 (delete_prop (set_prop delta (js ''content'') combined2)
                    (js ''reasoning_content''), started2)
               else (delta, started2))
         else
           (delete_prop
              (set_prop delta (js ''content'') (if truthy content then content else JStr []))
              (js ''reasoning_content''), reasoningStarted))"

text \<open>\<^verbatim>\<open>data.choices?.[0]?.delta\<close>, for \<^verbatim>\<open>data\<close> other than \<^verbatim>\<open>null\<close>.\<close>

definition delta_of :: "jsval \<Rightarrow> jsval" where
  "delta_of data = get_prop_opt (index0 (get_prop data (js ''choices''))) (js ''delta'')"

text \<open>
  The source changes the delta object in place, inside \<^verbatim>\<open>data\<close>. The value \<^verbatim>\<open>JSON.parse\<close>
  returned is a tree without sharing, so the change is the replacement of the delta at
  \<^verbatim>\<open>data.choices[0].delta\<close>.
\<close>

fun put_index0 :: "jsval \<Rightarrow> jsval \<Rightarrow> jsval" where
  "put_index0 (JArr (x # xs)) w = JArr (w # xs)"
| "put_index0 (JObj kvs) w = set_prop (JObj kvs) (js ''0'') w"
| "put_index0 v w = v"

definition put_delta :: "jsval \<Rightarrow> jsval \<Rightarrow> jsval" where
  "put_delta data d =
     (let choices = get_prop data (js ''choices'')
      in set_prop data (js ''choices'')
           (put_index0 choices (set_prop (index0 choices) (js ''delta'') d)))"

text \<open>
  Lines 148 to 181: the body of the \<^verbatim>\<open>try\<close> after the parse. \<open>None\<close> is a thrown
  \<^verbatim>\<open>TypeError\<close>: \<^verbatim>\<open>data.choices\<close> throws when \<^verbatim>\<open>data\<close> is \<^verbatim>\<open>null\<close>.
\<close>

definition transform_event ::
  "js_env \<Rightarrow> config \<Rightarrow> bool \<Rightarrow> jsval \<Rightarrow> (jsval \<times> bool) option" where
  "transform_event env cfg reasoningStarted data =
     (if data = JNull \<or> data = JUndefined then None
      else if truthy (delta_of data) then
        (let (delta', started') = splice env cfg reasoningStarted (delta_of data)
         in Some (put_delta data delta', started'))
      else Some (data, reasoningStarted))"

text \<open>
  What the handler writes to the response: \<open>Passthrough line\<close> is
  \<^verbatim>\<open>res.write(line + '\n')\<close> (lines 142 and 184), \<open>Frame data\<close> is
  \<^verbatim>\<open>res.write(`data: ${JSON.stringify(data)}\n\n`)\<close> (line 182).
\<close>

datatype sse_write = Passthrough jsstring | Frame jsval

fun written :: "js_env \<Rightarrow> sse_write \<Rightarrow> jsstring" where
  "written env (Passthrough line) = line @ [nl]"
| "written env (Frame data) = js ''data: '' @ JSON_stringify env data @ [nl, nl]"

text \<open>Lines 139 to 187: one line of the buffer.\<close>

definition on_line ::
  "js_env \<Rightarrow> config \<Rightarrow> bool \<Rightarrow> jsstring \<Rightarrow> bool \<times> sse_write list" where
  "on_line env cfg reasoningStarted line =
     (if startsWith line (js ''data: '') then
        (if str_includes line (js ''[DONE]'') then (reasoningStarted, [Passthrough line])
         else
           (case JSON_parse env (drop 6 line) of
              None \<Rightarrow> (reasoningStarted, [Passthrough line])
            | Some data \<Rightarrow>
                (case transform_event env cfg reasoningStarted data of
                   None \<Rightarrow> (reasoningStarted, [Passthrough line])
                 | Some (data', started') \<Rightarrow> (started', [Frame data']))))
      else (reasoningStarted, []))"

text \<open>\<^verbatim>\<open>lines.forEach\<close>: the lines in order, the flag threaded through.\<close>

fun on_lines ::
  "js_env \<Rightarrow> config \<Rightarrow> bool \<Rightarrow> jsstring list \<Rightarrow> bool \<times> sse_write list" where
  "on_lines env cfg reasoningStarted [] = (reasoningStarted, [])"
| "on_lines env cfg reasoningStarted (line # lines) =
     (let (started1, out1) = on_line env cfg reasoningStarted line;
          (started2, out2) = on_lines env cfg started1 lines
      in (started2, out1 @ out2))"

text \<open>
  The state of one stream (lines 131 and 132) and the \<^verbatim>\<open>'data'\<close> callback (lines 134 to 188).
  \<open>on_text\<close> is the callback after the chunk has been decoded: \<^verbatim>\<open>lines.pop()\<close> is the last
  piece of the split, which becomes the buffer; the other pieces are the lines.
\<close>

record stream_state =
  buffer :: jsstring
  reasoningStarted :: bool

definition stream_init :: stream_state where
  "stream_init = \<lparr>buffer = [], reasoningStarted = False\<rparr>"

definition on_text ::
  "js_env \<Rightarrow> config \<Rightarrow> stream_state \<Rightarrow> jsstring \<Rightarrow> stream_state \<times> sse_write list" where
  "on_text env cfg st text =
     (let pieces = split_nl (buffer st @ text);
          (started', out) = on_lines env cfg (reasoningStarted st) (butlast pieces)
      in (\<lparr>buffer = last pieces, reasoningStarted = started'\<rparr>, out))"

definition on_data ::
  "js_env \<Rightarrow> config \<Rightarrow> stream_state \<Rightarrow> byte list \<Rightarrow> stream_state \<times> sse_write list" where
  "on_data env cfg st chunk = on_text env cfg st (Buffer_toString chunk)"

text \<open>The chunks of a stream, one \<^verbatim>\<open>'data'\<close> event after the other.\<close>

fun feed ::
  "js_env \<Rightarrow> config \<Rightarrow> stream_state \<Rightarrow> byte list list \<Rightarrow> stream_state \<times> sse_write list" where
  "feed env cfg st [] = (st, [])"
| "feed env cfg st (chunk # chunks) =
     (let (st1, out1) = on_data env cfg st chunk;
          (st2, out2) = feed env cfg st1 chunks
      in (st2, out1 @ out2))"

section \<open>Model resolution and the backend request (lines 15 to 23 and 74 to 123)\<close>

definition MODEL_MAPPING :: "(jsstring \<times> jsstring) list" where
  "MODEL_MAPPING =
     [(js ''gpt-3.5-turbo'', js ''nvidia/llama-3.1-nemotron-ultra-253b-v1''),
      (js ''gpt-4'', js ''qwen/qwen3-coder-480b-a35b-instruct''),
      (js ''gpt-4-turbo'', js ''moonshotai/kimi-k2-instruct-0905''),
      (js ''gpt-4o'', js ''deepseek-ai/deepseek-v3.2''),
      (js ''claude-3-opus'', js ''openai/gpt-oss-120b''),
      (js ''claude-3-sonnet'', js ''openai/gpt-oss-20b''),
      (js ''gemini-pro'', js ''qwen/qwen3-next-80b-a3b-thinking'')]"

text \<open>
  \<^verbatim>\<open>MODEL_MAPPING\<close> is an object literal, so \<^verbatim>\<open>MODEL_MAPPING[model]\<close> finds, besides the seven
  own properties, the members the object inherits from \<^verbatim>\<open>Object.prototype\<close>: functions, and
  for \<^verbatim>\<open>__proto__\<close> the prototype object, all of them truthy.
\<close>

definition Object_prototype :: "jsstring list" where
  "Object_prototype =
     [js ''constructor'', js ''__defineGetter__'', js ''__defineSetter__'',
      js ''hasOwnProperty'', js ''__lookupGetter__'', js ''__lookupSetter__'',
      js ''isPrototypeOf'', js ''propertyIsEnumerable'', js ''toString'', js ''valueOf'',
      js ''__proto__'', js ''toLocaleString'']"

text \<open>
  The values of the variable \<^verbatim>\<open>nimModel\<close>: a value of the kind above (a string of the
  mapping, the request's model, a tier default, or \<^verbatim>\<open>undefined\<close>), or the member of
  \<^verbatim>\<open>Object.prototype\<close> with the given name.
\<close>

datatype nim_model = Value jsval | Inherited jsstring

fun truthy_model :: "nim_model \<Rightarrow> bool" where
  "truthy_model (Value v) = truthy v"
| "truthy_model (Inherited k) = True"

text \<open>\<^verbatim>\<open>MODEL_MAPPING[model]\<close> (line 77); the key is the model converted to a string.\<close>

definition mapping_lookup :: "js_env \<Rightarrow> jsval \<Rightarrow> nim_model" where
  "mapping_lookup env model =
     (let key = to_str env model
      in case map_of MODEL_MAPPING key of
           Some v \<Rightarrow> Value (JStr v)
         | None \<Rightarrow> if key \<in> set Object_prototype then Inherited key else Value JUndefined)"

text \<open>
  The backend is a parameter. The probe of lines 80 to 91 either gets a response with an
  HTTP status or fails without one. The chat request of line 117 is rejected with an error
  or resolves: with the parsed body, or, when a stream was asked for, with the chunks the
  stream delivers before it ends or fails.
\<close>

datatype probe_result = Probe_status nat | Probe_failed

datatype js_error = TypeError | AxiosError "nat option" jsstring

record nim_request =
  nim_model :: nim_model
  nim_messages :: jsval
  nim_temperature :: jsval
  nim_max_tokens :: jsval
  nim_extra_body :: jsval
  nim_stream :: jsval

record network =
  probe :: "jsval \<Rightarrow> probe_result"
  post_json :: "nim_request \<Rightarrow> js_error + jsval"
  post_stream :: "nim_request \<Rightarrow> js_error + byte list list"

text \<open>
  Lines 77 to 104. The result is the final \<^verbatim>\<open>nimModel\<close>, or \<open>None\<close> when
  \<^verbatim>\<open>model.toLowerCase()\<close> throws because the model is not a string; with it, the models
  probed, in order. A probe answered with a status below 500 resolves (\<^verbatim>\<open>validateStatus\<close>)
  and sets \<^verbatim>\<open>nimModel\<close> when the status is 2xx; any other outcome is caught and ignored.
\<close>

definition resolve_model ::
  "js_env \<Rightarrow> network \<Rightarrow> jsval \<Rightarrow> nim_model option \<times> jsval list" where
  "resolve_model env net model =
     (let nimModel = mapping_lookup env model
      in if \<not> truthy_model nimModel then
           (let nimModel1 =
                  (case probe net model of
                     Probe_status status \<Rightarrow>
                       if status < 500 then
                         (if 200 \<le> status \<and> status < 300 then Value model else nimModel)
                       else nimModel
                   | Probe_failed \<Rightarrow> nimModel)
            in if \<not> truthy_model nimModel1 then
                 (case model of
                    JStr m \<Rightarrow>
                      (let modelLower = toLowerCase env m
                       in if str_includes modelLower (js ''gpt-4'')
                             \<or> str_includes modelLower (js ''claude-opus'')
                             \<or> str_includes modelLower (js ''405b'') then
                            (Some (Value (JStr (js ''meta/llama-3.1-405b-instruct''))), [model])
                          else if str_includes modelLower (js ''claude'')
                             \<or> str_includes modelLower (js ''gemini'')
                             \<or> str_includes modelLower (js ''70b'') then
                            (Some (Value (JStr (js ''meta/llama-3.1-70b-instruct''))), [model])
                          else
                            (Some (Value (JStr (js ''meta/llama-3.1-8b-instruct''))), [model]))
                  | _ \<Rightarrow> (None, [model]))
               else (Some nimModel1, [model]))
         else (Some nimModel, []))"

text \<open>
  Lines 107 to 114. The numerals \<^verbatim>\<open>0.6\<close> and \<^verbatim>\<open>9024\<close> are the rationals they denote.
\<close>

definition nimRequest ::
  "config \<Rightarrow> nim_model \<Rightarrow> jsval \<Rightarrow> jsval \<Rightarrow> jsval \<Rightarrow> jsval \<Rightarrow> nim_request" where
  "nimRequest cfg nimModel messages temperature max_tokens stream =
     \<lparr>nim_model = nimModel,
      nim_messages = messages,
      nim_temperature = or_else temperature (JNum (6 / 10)),
      nim_max_tokens = or_else max_tokens (JNum 9024),
      nim_extra_body =
        (if ENABLE_THINKING_MODE cfg then
           JObj [(js ''chat_template_kwargs'', JObj [(js ''thinking'', JBool True)])]
         else JUndefined),
      nim_stream = or_else stream (JBool False)\<rparr>"

section \<open>The non-streamed response (lines 197 to 223)\<close>

text \<open>
  One choice of the backend's response; \<open>None\<close> is a thrown \<^verbatim>\<open>TypeError\<close>
  (\<^verbatim>\<open>choice.message\<close> on \<^verbatim>\<open>null\<close>, \<^verbatim>\<open>choice.message.role\<close> without a message).
\<close>

definition choice_out :: "js_env \<Rightarrow> config \<Rightarrow> jsval \<Rightarrow> jsval option" where
  "choice_out env cfg choice =
     (if choice = JNull \<or> choice = JUndefined then None
      else
        (let message = get_prop choice (js ''message'');
             content = or_else (get_prop_opt message (js ''content'')) (JStr []);
             reasoning = get_prop_opt message (js ''reasoning_content'');
             fullContent =
               (if SHOW_REASONING cfg \<and> truthy reasoning then
                  JStr (think_open @ to_str env reasoning @ [nl] @ think_close
                        @ to_str env content)
                else content)
         in if message = JNull \<or> message = JUndefined then None
            else
              Some (JObj
                [(js ''index'', get_prop choice (js ''index'')),
                 (js ''message'',
                    JObj [(js ''role'', get_prop message (js ''role'')),
                          (js ''content'', fullContent)]),
                 (js ''finish_reason'', get_prop choice (js ''finish_reason''))])))"

text \<open>
  The envelope; \<open>None\<close> is a thrown \<^verbatim>\<open>TypeError\<close> (no \<^verbatim>\<open>choices\<close> array, or one from a
  choice). \<^verbatim>\<open>Date.now()\<close> is called twice, for \<^verbatim>\<open>id\<close> and for \<^verbatim>\<open>created\<close>.
\<close>

definition openaiResponse :: "js_env \<Rightarrow> config \<Rightarrow> jsval \<Rightarrow> jsval \<Rightarrow> jsval option" where
  "openaiResponse env cfg model data =
     (if data = JNull \<or> data = JUndefined then None
      else
        (case get_prop data (js ''choices'') of
           JArr xs \<Rightarrow>
             (case those (map (choice_out env cfg) xs) of
                None \<Rightarrow> None
              | Some choices \<Rightarrow>
                  Some (JObj
                    [(js ''id'',
                        JStr (js ''chatcmpl-'' @ Number_toString env (of_nat (Date_now env 0)))),
                     (js ''object'', JStr (js ''chat.completion'')),
                     (js ''created'', JNum (of_nat (Date_now env 1 div 1000))),
                     (js ''model'', model),
                     (js ''choices'', JArr choices),
                     (js ''usage'',
                        or_else (get_prop data (js ''usage''))
                          (JObj [(js ''prompt_tokens'', JNum 0),
                                 (js ''completion_tokens'', JNum 0),
                                 (js ''total_tokens'', JNum 0)]))]))
         | _ \<Rightarrow> None))"

section \<open>The handler (lines 26 to 249)\<close>

text \<open>
  A request as the handler reads it, and the response it produces: the status, the headers
  the handler sets, and the body, which is either one JSON value (\<^verbatim>\<open>res.json\<close>) or the
  writes of a stream. Next to the response the handler's calls to the backend are recorded,
  in order.
\<close>

record request =
  req_method :: jsstring
  req_url :: jsstring
  req_body :: jsval

datatype body = Json jsval | Events "sse_write list"

record response =
  res_status :: nat
  res_headers :: "(jsstring \<times> jsstring) list"
  res_body :: body

datatype outbound = Probe jsval | Chat nim_request

definition corsHeaders :: "(jsstring \<times> jsstring) list" where
  "corsHeaders =
     [(js ''Access-Control-Allow-Origin'', js ''*''),
      (js ''Access-Control-Allow-Methods'', js ''GET, POST, OPTIONS''),
      (js ''Access-Control-Allow-Headers'', js ''Content-Type, Authorization'')]"

text \<open>The response object before the handler touches it: status 200, no header set.\<close>

definition res_init :: response where
  "res_init = \<lparr>res_status = 200, res_headers = [], res_body = Events []\<rparr>"

definition setHeader :: "response \<Rightarrow> jsstring \<times> jsstring \<Rightarrow> response" where
  "setHeader res kv = res\<lparr>res_headers := AList.update (fst kv) (snd kv) (res_headers res)\<rparr>"

text \<open>\<^verbatim>\<open>res.status(code).json(value)\<close>.\<close>

definition res_json :: "response \<Rightarrow> nat \<Rightarrow> jsval \<Rightarrow> response" where
  "res_json res code v = res\<lparr>res_status := code, res_body := Json v\<rparr>"

definition health_body :: "config \<Rightarrow> jsval" where
  "health_body cfg =
     JObj [(js ''status'', JStr (js ''ok'')),
           (js ''service'', JStr (js ''OpenAI to NVIDIA NIM Proxy (Vercel)'')),
           (js ''reasoning_display'', JBool (SHOW_REASONING cfg)),
           (js ''thinking_mode'', JBool (ENABLE_THINKING_MODE cfg))]"

text \<open>Lines 59 to 69; \<^verbatim>\<open>Date.now()\<close> is called once for each key.\<close>

definition models_body :: "js_env \<Rightarrow> jsval" where
  "models_body env =
     JObj [(js ''object'', JStr (js ''list'')),
           (js ''data'',
              JArr (map (\<lambda>(i, model).
                      JObj [(js ''id'', JStr model),
                            (js ''object'', JStr (js ''model'')),
                            (js ''created'', JNum (of_nat (Date_now env i))),
                            (js ''owned_by'', JStr (js ''nvidia-nim-proxy''))])
                    (enumerate 0 (map fst MODEL_MAPPING))))]"

definition error_body :: "jsstring \<Rightarrow> nat \<Rightarrow> jsval" where
  "error_body message code =
     JObj [(js ''error'',
        JObj [(js ''message'', JStr message),
              (js ''type'', JStr (js ''invalid_request_error'')),
              (js ''code'', JNum (of_nat code))])]"

text \<open>
  The \<^verbatim>\<open>catch\<close> of lines 238 to 248: \<^verbatim>\<open>error.response?.status || 500\<close> and
  \<^verbatim>\<open>error.message || 'Internal server error'\<close>.
\<close>

fun error_status :: "js_error \<Rightarrow> nat" where
  "error_status TypeError = 500"
| "error_status (AxiosError None message) = 500"
| "error_status (AxiosError (Some code) message) = (if code \<noteq> 0 then code else 500)"

fun error_message :: "js_env \<Rightarrow> js_error \<Rightarrow> jsstring" where
  "error_message env TypeError = TypeError_message env"
| "error_message env (AxiosError code message) = message"

definition on_error :: "js_env \<Rightarrow> response \<Rightarrow> js_error \<Rightarrow> response" where
  "on_error env res err =
     res_json res (error_status err)
       (error_body
          (if error_message env err \<noteq> [] then error_message env err
           else js ''Internal server error'')
          (error_status err))"

text \<open>
  Lines 74 to 226, inside the \<^verbatim>\<open>try\<close>: the response, or the error thrown, and the calls
  made. Destructuring \<^verbatim>\<open>req.body\<close> throws when there is no body.
\<close>

definition chat_completions ::
  "js_env \<Rightarrow> config \<Rightarrow> network \<Rightarrow> request \<Rightarrow> response
     \<Rightarrow> (js_error + response) \<times> outbound list" where
  "chat_completions env cfg net req res =
     (let b = req_body req
      in if b = JNull \<or> b = JUndefined then (Inl TypeError, [])
         else
           (let model = get_prop b (js ''model'');
                messages = get_prop b (js ''messages'');
                temperature = get_prop b (js ''temperature'');
                max_tokens = get_prop b (js ''max_tokens'');
                stream = get_prop b (js ''stream'')
            in case resolve_model env net model of
                 (None, probes) \<Rightarrow> (Inl TypeError, map Probe probes)
               | (Some nimModel, probes) \<Rightarrow>
                   (let request = nimRequest cfg nimModel messages temperature max_tokens stream;
                        calls = map Probe probes @ [Chat request]
                    in if truthy stream then
                         (case post_stream net request of
                            Inl err \<Rightarrow> (Inl err, calls)
                          | Inr chunks \<Rightarrow>
                              (Inr ((fold (\<lambda>kv r. setHeader r kv)
                                       [(js ''Content-Type'', js ''text/event-stream''),
                                        (js ''Cache-Control'', js ''no-cache''),
                                        (js ''Connection'', js ''keep-alive'')] res)
                                    \<lparr>res_body := Events (snd (feed env cfg stream_init chunks))\<rparr>),
                               calls))
                       else
                         (case post_json net request of
                            Inl err \<Rightarrow> (Inl err, calls)
                          | Inr data \<Rightarrow>
                              (case openaiResponse env cfg model data of
                                 None \<Rightarrow> (Inl TypeError, calls)
                               | Some v \<Rightarrow> (Inr (res_json res 200 v), calls))))))"

text \<open>
  The exported function, lines 33 to 249. An \<^verbatim>\<open>OPTIONS\<close> request is answered at line 36,
  before the headers are set at lines 40 to 42.
\<close>

definition handler ::
  "js_env \<Rightarrow> config \<Rightarrow> network \<Rightarrow> request \<Rightarrow> response \<times> outbound list" where
  "handler env cfg net req =
     (if req_method req = js ''OPTIONS'' then
        (res_json res_init 200 (JObj [(js ''ok'', JBool True)]), [])
      else
        (let res = fold (\<lambda>kv r. setHeader r kv) corsHeaders res_init;
             path = (if req_url req \<noteq> [] then req_url req else js ''/'')
         in if str_includes path (js ''/health'') \<or> path = js ''/api'' \<or> path = js ''/api/'' then
              (res_json res 200 (health_body cfg), [])
            else if str_includes path (js ''/v1/models'') then
              (res_json res 200 (models_body env), [])
            else if str_includes path (js ''/v1/chat/completions'')
                    \<and> req_method req = js ''POST'' then
              (case chat_completions env cfg net req res of
                 (Inr r, calls) \<Rightarrow> (r, calls)
               | (Inl err, calls) \<Rightarrow> (on_error env res err, calls))
            else
              (res_json res 404
                 (error_body (js ''Endpoint '' @ path @ js '' not found'') 404), [])))"

text \<open>
  A probe fails when it gets no response or a response whose status is not 2xx. A response
  carries the CORS headers when each of the three is set to its value.
\<close>

definition probe_fails :: "network \<Rightarrow> jsval \<Rightarrow> bool" where
  "probe_fails net model =
     (case probe net model of
        Probe_failed \<Rightarrow> True
      | Probe_status status \<Rightarrow> status < 200 \<or> 300 \<le> status)"

definition has_cors :: "response \<Rightarrow> bool" where
  "has_cors r = list_all (\<lambda>kv. map_of (res_headers r) (fst kv) = Some (snd kv)) corsHeaders"

section \<open>Example inputs\<close>

text \<open>
  An event of the backend stream with one choice, whose delta has the given fields, and the
  payload texts used in the examples below, with the value \<^verbatim>\<open>JSON.parse\<close> gives for each.
\<close>

definition delta_event :: "(jsstring \<times> jsval) list \<Rightarrow> jsval" where
  "delta_event props = JObj [(js ''choices'', JArr [JObj [(js ''delta'', JObj props)]])]"

definition ascii_bytes :: "string \<Rightarrow> byte list" where
  "ascii_bytes s = map of_char s"

definition payload_content :: "jsstring \<Rightarrow> jsstring" where
  "payload_content c = js ''{\"choices\":[{\"delta\":{\"content\":\"'' @ c @ js ''\"}}]}''"

definition payload_reasoning :: "jsstring \<Rightarrow> jsstring" where
  "payload_reasoning r =
     js ''{\"choices\":[{\"delta\":{\"reasoning_content\":\"'' @ r @ js ''\"}}]}''"

definition payload_content_null :: jsstring where
  "payload_content_null = js ''{\"choices\":[{\"delta\":{\"content\":null}}]}''"

definition payload_done_text :: jsstring where
  "payload_done_text =
     js ''{\"choices\":[{\"delta\":{\"reasoning_content\":\"x\",\"content\":\"[DONE]\"}}]}''"

definition example_parse :: "jsstring \<Rightarrow> jsval option" where
  "example_parse =
     map_of
       [(payload_content (js ''Hi''), delta_event [(js ''content'', JStr (js ''Hi''))]),
        (payload_content [0xE9], delta_event [(js ''content'', JStr [0xE9])]),
        (payload_content [0xFFFD, 0xFFFD], delta_event [(js ''content'', JStr [0xFFFD, 0xFFFD])]),
        (payload_content (js ''c''), delta_event [(js ''content'', JStr (js ''c''))]),
        (payload_reasoning (js ''a''), delta_event [(js ''reasoning_content'', JStr (js ''a''))]),
        (payload_reasoning (js ''b''), delta_event [(js ''reasoning_content'', JStr (js ''b''))]),
        (payload_reasoning [], delta_event [(js ''reasoning_content'', JStr [])]),
        (payload_content_null, delta_event [(js ''content'', JNull)])]"

text \<open>
  The bytes of one event whose content is the letter e with acute accent (U+00E9, in UTF-8
  the two bytes C3 A9), whole and cut between those two bytes.
\<close>

definition accent_head :: "byte list" where
  "accent_head = ascii_bytes ''data: {\"choices\":[{\"delta\":{\"content\":\"'' @ [0xC3]"

definition accent_tail :: "byte list" where
  "accent_tail = [0xA9] @ ascii_bytes ''\"}}]}'' @ [10, 10]"

text \<open>The event of the specification's example, as bytes.\<close>

definition hi_event_bytes :: "byte list" where
  "hi_event_bytes =
     ascii_bytes ''data: {\"choices\":[{\"delta\":{\"content\":\"Hi\"}}]}'' @ [10, 10]"

definition display_on :: config where
  "display_on = \<lparr>SHOW_REASONING = True, ENABLE_THINKING_MODE = False\<rparr>"

text \<open>
  Three events, as bytes: reasoning \<^verbatim>\<open>a\<close>, reasoning \<^verbatim>\<open>b\<close>, content \<^verbatim>\<open>c\<close>, each followed by
  a blank line.
\<close>

definition three_deltas_bytes :: "byte list" where
  "three_deltas_bytes =
     ascii_bytes ''data: {\"choices\":[{\"delta\":{\"reasoning_content\":\"a\"}}]}'' @ [10, 10]
     @ ascii_bytes ''data: {\"choices\":[{\"delta\":{\"reasoning_content\":\"b\"}}]}'' @ [10, 10]
     @ ascii_bytes ''data: {\"choices\":[{\"delta\":{\"content\":\"c\"}}]}'' @ [10, 10]"

text \<open>The text of the content field of a written frame's delta, and whether that delta has
  a reasoning field.\<close>

fun frame_content :: "sse_write \<Rightarrow> jsstring" where
  "frame_content (Frame data) =
     (case get_prop (delta_of data) (js ''content'') of JStr s \<Rightarrow> s | _ \<Rightarrow> [])"
| "frame_content (Passthrough line) = []"

fun frame_has_reasoning :: "sse_write \<Rightarrow> bool" where
  "frame_has_reasoning (Frame data) = has_prop (delta_of data) (js ''reasoning_content'')"
| "frame_has_reasoning (Passthrough line) = False"

text \<open>
  For the examples of model resolution: lowercasing of ASCII text, and a backend that
  answers every probe with status 404.
\<close>

definition ascii_lower :: "jsstring \<Rightarrow> jsstring" where
  "ascii_lower s = map (\<lambda>c. if 65 \<le> c \<and> c \<le> 90 then c + 32 else c) s"

definition failing_probe :: "network \<Rightarrow> network" where
  "failing_probe net = net\<lparr>probe := (\<lambda>model. Probe_status 404)\<rparr>"

section \<open>Facts about strings and lines\<close>

lemma startsWith_append: "startsWith (p @ s) p"
  by (induction p) auto

lemma str_includes_append: "str_includes s p \<Longrightarrow> str_includes (q @ s) p"
  by (induction q) auto

lemma str_includes_data_prefix:
  "str_includes (js ''data: '' @ rest) (js ''[DONE]'') = str_includes rest (js ''[DONE]'')"
  by (simp add: js_def)

lemma drop_data_prefix: "drop 6 (js ''data: '' @ rest) = rest"
  by (simp add: js_def)

lemma split_nl_nonempty: "split_nl s \<noteq> []"
  by (induction s) (auto split: list.splits)

lemma split_nl_line: "nl \<notin> set l \<Longrightarrow> split_nl (l @ nl # rest) = l # split_nl rest"
  by (induction l) auto

lemma split_line2: "nl \<notin> set l \<Longrightarrow> split_nl (l @ [nl, nl]) = [l, [], []]"
  by (induction l) (auto)

lemma split_nl_append:
  "split_nl (a @ b) = butlast (split_nl a) @ split_nl (last (split_nl a) @ b)"
proof (induction a)
  case Nil
  show ?case by simp
next
  case (Cons c cs)
  obtain p ps where sp: "split_nl cs = p # ps"
    using split_nl_nonempty [of cs] by (cases "split_nl cs") auto
  show ?case
  proof (cases "c = nl")
    case True
    with Cons sp show ?thesis by simp
  next
    case False
    show ?thesis
    proof (cases ps)
      case Nil
      with Cons sp False show ?thesis by simp
    next
      case (Cons q qs)
      with Cons.IH sp False show ?thesis by simp
    qed
  qed
qed

section \<open>Decoding a chunk\<close>

lemma utf8_examples:
  "Buffer_toString [0xC3, 0xA9] = [0xE9]"
  "Buffer_toString [0xE2, 0x82, 0xAC] = [0x20AC]"
  "Buffer_toString [0xF0, 0x9F, 0x98, 0x80] = [0xD83D, 0xDE00]"
  "Buffer_toString [0xC3] = [0xFFFD]"
  "Buffer_toString [0xA9] = [0xFFFD]"
  by (simp_all add: Buffer_toString_def utf8_step_def utf8_lead_def utf8_idle_def utf16_def Let_def)

lemma utf8_lead_ascii: "unat b < 128 \<Longrightarrow> utf8_lead b = ([of_nat (unat b)], utf8_idle)"
  by (simp add: utf8_lead_def Let_def)

lemma utf8_run_ascii:
  "list_all (\<lambda>b. unat b < 128) a \<Longrightarrow>
     utf8_run utf8_idle (a @ bs) = map (\<lambda>b. of_nat (unat b)) a @ utf8_run utf8_idle bs"
proof (induction a)
  case Nil
  show ?case by simp
next
  case (Cons b a)
  then have "utf8_step utf8_idle b = ([of_nat (unat b)], utf8_idle)"
    by (simp add: utf8_step_def utf8_idle_def utf8_lead_ascii)
  with Cons show ?case by simp
qed

lemma Buffer_toString_ascii:
  assumes "list_all (\<lambda>b. unat b < 128) a"
  shows "Buffer_toString (a @ b) = Buffer_toString a @ Buffer_toString b"
proof -
  have "utf8_run utf8_idle a = map (\<lambda>b. of_nat (unat b)) a"
    using utf8_run_ascii [OF assms, of "[]"] by (simp add: utf8_idle_def)
  then show ?thesis
    using utf8_run_ascii [OF assms, of b] by (simp add: Buffer_toString_def)
qed

section \<open>One line, and lines in sequence\<close>

lemma on_line_empty: "on_line env cfg s [] = (s, [])"
  by (simp add: on_line_def js_def)

lemma on_line_parsed:
  assumes "JSON_parse env payload = Some data"
    and "\<not> str_includes payload (js ''[DONE]'')"
  shows "on_line env cfg s (js ''data: '' @ payload)
           = (case transform_event env cfg s data of
                None \<Rightarrow> (s, [Passthrough (js ''data: '' @ payload)])
              | Some (data', s') \<Rightarrow> (s', [Frame data']))"
  using assms
  by (simp add: on_line_def startsWith_append str_includes_data_prefix drop_data_prefix
      del: drop_append)

lemma on_lines_append:
  "on_lines env cfg s (xs @ ys) =
     (let (s1, o1) = on_lines env cfg s xs; (s2, o2) = on_lines env cfg s1 ys
      in (s2, o1 @ o2))"
  by (induction xs arbitrary: s) (auto split: prod.splits)

lemma on_text_append:
  "on_text env cfg st (a @ b) =
     (let (st1, o1) = on_text env cfg st a; (st2, o2) = on_text env cfg st1 b
      in (st2, o1 @ o2))"
proof -
  let ?A = "split_nl (buffer st @ a)"
  let ?B = "split_nl (last ?A @ b)"
  have sp: "split_nl (buffer st @ a @ b) = butlast ?A @ ?B"
    using split_nl_append [of "buffer st @ a" b] by simp
  have ne: "?B \<noteq> []" by (rule split_nl_nonempty)
  have bl: "butlast (butlast ?A @ ?B) = butlast ?A @ butlast ?B"
    using ne by (simp add: butlast_append)
  have la: "last (butlast ?A @ ?B) = last ?B"
    using ne by simp
  show ?thesis
    by (simp add: on_text_def sp bl la on_lines_append Let_def split: prod.splits)
qed

section \<open>The sentinel check\<close>

text \<open>
  Claim C10. A line that begins with \<^verbatim>\<open>data: \<close> and whose remainder contains \<^verbatim>\<open>[DONE]\<close>
  anywhere is written back as it is, followed by one newline: it is not parsed, the
  reasoning flag does not change, and nothing in it (a reasoning field included) is
  removed. This holds for every parser and for both settings of the display toggle.
\<close>

theorem done_line_forwarded:
  assumes "str_includes rest (js ''[DONE]'')"
  shows "on_line env cfg started (js ''data: '' @ rest)
           = (started, [Passthrough (js ''data: '' @ rest)])
         \<and> written env (Passthrough (js ''data: '' @ rest)) = js ''data: '' @ rest @ [nl]"
  using assms by (simp add: on_line_def startsWith_append str_includes_append)

theorem done_line_forwarded_witness:
  "\<forall>env cfg started.
     str_includes payload_done_text (js ''[DONE]'')
     \<and> on_line env cfg started (js ''data: '' @ payload_done_text)
         = (started, [Passthrough (js ''data: '' @ payload_done_text)])
     \<and> written env (Passthrough (js ''data: '' @ payload_done_text))
         = js ''data: '' @ payload_done_text @ [nl]"
proof -
  have h: "str_includes payload_done_text (js ''[DONE]'')"
    by (simp add: payload_done_text_def js_def)
  show ?thesis using h done_line_forwarded [OF h] by simp
qed

section \<open>The example payloads\<close>

lemma parse_examples:
  "example_parse (payload_content (js ''Hi'')) = Some (delta_event [(js ''content'', JStr (js ''Hi''))])"
  "example_parse (payload_content (js ''c'')) = Some (delta_event [(js ''content'', JStr (js ''c''))])"
  "example_parse (payload_reasoning (js ''a'')) = Some (delta_event [(js ''reasoning_content'', JStr (js ''a''))])"
  "example_parse (payload_reasoning (js ''b'')) = Some (delta_event [(js ''reasoning_content'', JStr (js ''b''))])"
  "example_parse (payload_reasoning []) = Some (delta_event [(js ''reasoning_content'', JStr [])])"
  "example_parse payload_content_null = Some (delta_event [(js ''content'', JNull)])"
  by (simp_all add: example_parse_def payload_content_def payload_reasoning_def
      payload_content_null_def js_def)

lemma parse_accent:
  "example_parse (payload_content [0xE9]) = Some (delta_event [(js ''content'', JStr [0xE9])])"
  by (simp add: example_parse_def payload_content_def js_def)

lemma parse_garbled:
  "example_parse (payload_content [0xFFFD, 0xFFFD])
     = Some (delta_event [(js ''content'', JStr [0xFFFD, 0xFFFD])])"
  by (simp add: example_parse_def payload_content_def js_def)

lemma no_done_payloads:
  "\<not> str_includes (payload_reasoning (js ''a'')) (js ''[DONE]'')"
  "\<not> str_includes (payload_reasoning (js ''b'')) (js ''[DONE]'')"
  "\<not> str_includes (payload_content (js ''c'')) (js ''[DONE]'')"
  by (simp_all add: payload_content_def payload_reasoning_def js_def)

lemma no_done_more:
  "\<not> str_includes (payload_content (js ''Hi'')) (js ''[DONE]'')"
  "\<not> str_includes (payload_reasoning []) (js ''[DONE]'')"
  "\<not> str_includes payload_content_null (js ''[DONE]'')"
  by (simp_all add: payload_content_def payload_reasoning_def payload_content_null_def js_def)

lemma no_done_accent: "\<not> str_includes (payload_content [0xE9]) (js ''[DONE]'')"
  by (simp add: payload_content_def js_def)

lemma no_done_garbled: "\<not> str_includes (payload_content [0xFFFD, 0xFFFD]) (js ''[DONE]'')"
  by (simp add: payload_content_def js_def)

lemma no_nl_payloads:
  "nl \<notin> set (js ''data: '' @ payload_reasoning (js ''a''))"
  "nl \<notin> set (js ''data: '' @ payload_reasoning (js ''b''))"
  "nl \<notin> set (js ''data: '' @ payload_content (js ''c''))"
  by (simp_all add: payload_content_def payload_reasoning_def js_def nl_def)

lemma no_nl_accent: "nl \<notin> set (js ''data: '' @ payload_content [0xE9])"
  by (simp add: payload_content_def js_def nl_def)

lemma no_nl_garbled: "nl \<notin> set (js ''data: '' @ payload_content [0xFFFD, 0xFFFD])"
  by (simp add: payload_content_def js_def nl_def)

lemma delta_of_delta_event: "delta_of (delta_event props) = JObj props"
  by (simp add: delta_of_def delta_event_def js_def)

lemma content_event_unchanged:
  "truthy (JStr c) \<Longrightarrow> transform_event env cfg False (delta_event [(js ''content'', JStr c)])
    = Some (delta_event [(js ''content'', JStr c)], False)"
  by (simp add: transform_event_def delta_event_def delta_of_def splice_def put_delta_def js_def Let_def)

lemma on_line_content:
  assumes "JSON_parse env (payload_content c) = Some (delta_event [(js ''content'', JStr c)])"
    and "c \<noteq> []" and "\<not> str_includes (payload_content c) (js ''[DONE]'')"
  shows "on_line env cfg False (js ''data: '' @ payload_content c)
           = (False, [Frame (delta_event [(js ''content'', JStr c)])])"
  using assms
  by (simp add: on_line_def startsWith_append str_includes_data_prefix drop_data_prefix
      content_event_unchanged del: drop_append)

section \<open>Chunk boundaries\<close>

text \<open>
  Two chunks against their concatenation fed as one chunk: the writes and the final state
  agree whenever the two chunks decode to the two halves of the decoded whole, which is so
  when the first chunk is ASCII. The unfinished last line is carried over in the buffer.
\<close>

lemma feed_split_decoded:
  assumes "Buffer_toString (a @ b) = Buffer_toString a @ Buffer_toString b"
  shows "feed env cfg st [a, b] = feed env cfg st [a @ b]"
  using assms by (simp add: on_data_def on_text_append Let_def split: prod.splits)

lemma feed_split_ascii:
  assumes "list_all (\<lambda>b. unat b < 128) a"
  shows "feed env cfg st [a, b] = feed env cfg st [a @ b]"
  by (rule feed_split_decoded) (rule Buffer_toString_ascii [OF assms])

lemma feed_chunks_ascii:
  assumes "chunks \<noteq> []" and "list_all (\<lambda>b. unat b < 128) (concat chunks)"
  shows "feed env cfg st chunks = feed env cfg st [concat chunks]"
  using assms
proof (induction chunks arbitrary: st rule: list_nonempty_induct)
  case (single c)
  show ?case by simp
next
  case (cons c cs)
  then have a: "list_all (\<lambda>b. unat b < 128) c" and b: "list_all (\<lambda>b. unat b < 128) (concat cs)"
    by simp_all
  have "feed env cfg st (c # cs) = feed env cfg st [c, concat cs]"
    using cons.IH [OF b] by (simp add: Let_def split: prod.splits)
  also have "\<dots> = feed env cfg st [c @ concat cs]"
    by (rule feed_split_ascii [OF a])
  finally show ?case by simp
qed

subsection \<open>The specification's example\<close>

text \<open>
  The event whose content is \<^verbatim>\<open>Hi\<close>, fed whole or cut in two at any offset, is written as
  one frame holding the same event; the stream is left with an empty buffer.
\<close>

lemma hi_event_any_offset:
  "feed env cfg st [take n hi_event_bytes, drop n hi_event_bytes]
     = feed env cfg st [hi_event_bytes]"
proof -
  have "list_all (\<lambda>b. unat b < 128) hi_event_bytes"
    by (simp add: hi_event_bytes_def ascii_bytes_def)
  then have "list_all (\<lambda>b. unat b < 128) (take n hi_event_bytes)"
    by (auto simp: list_all_iff dest: in_set_takeD)
  from feed_split_ascii [OF this, of env cfg st "drop n hi_event_bytes"]
  show ?thesis by simp
qed

lemma decode_hi:
  "Buffer_toString hi_event_bytes = js ''data: '' @ payload_content (js ''Hi'') @ [nl, nl]"
  by (simp add: Buffer_toString_def hi_event_bytes_def ascii_bytes_def
      utf8_step_def utf8_lead_def utf8_idle_def js_def payload_content_def nl_def Let_def)

lemma hi_event_whole:
  assumes "JSON_parse env (payload_content (js ''Hi''))
             = Some (delta_event [(js ''content'', JStr (js ''Hi''))])"
  shows "feed env cfg stream_init [hi_event_bytes]
           = (stream_init, [Frame (delta_event [(js ''content'', JStr (js ''Hi''))])])"
proof -
  have n: "nl \<notin> set (js ''data: '' @ payload_content (js ''Hi''))"
    by (simp add: payload_content_def js_def nl_def)
  have sp: "split_nl (js ''data: '' @ payload_content (js ''Hi'') @ [nl, nl])
              = [js ''data: '' @ payload_content (js ''Hi''), [], []]"
    using split_line2 [OF n] by simp
  have h: "js ''Hi'' \<noteq> []" by (simp add: js_def)
  show ?thesis
    by (simp add: on_data_def on_text_def stream_init_def decode_hi sp on_line_empty
        on_line_content [OF assms h no_done_more(1)])
qed

lemma hi_event_two_chunks:
  assumes "JSON_parse env (payload_content (js ''Hi''))
             = Some (delta_event [(js ''content'', JStr (js ''Hi''))])"
  shows "feed env cfg stream_init [take n hi_event_bytes, drop n hi_event_bytes]
           = (stream_init, [Frame (delta_event [(js ''content'', JStr (js ''Hi''))])])"
  using hi_event_any_offset [of env cfg stream_init n] hi_event_whole [OF assms, of cfg]
  by simp

subsection \<open>A cut inside a character\<close>

lemma decode_whole:
  "Buffer_toString (accent_head @ accent_tail) = js ''data: '' @ payload_content [0xE9] @ [nl, nl]"
  by (simp add: Buffer_toString_def accent_head_def accent_tail_def ascii_bytes_def
      utf8_step_def utf8_lead_def utf8_idle_def utf16_def js_def payload_content_def nl_def Let_def)

lemma decode_head:
  "Buffer_toString accent_head = js ''data: {\"choices\":[{\"delta\":{\"content\":\"'' @ [0xFFFD]"
  by (simp add: Buffer_toString_def accent_head_def ascii_bytes_def
      utf8_step_def utf8_lead_def utf8_idle_def utf16_def js_def Let_def)

lemma decode_tail:
  "Buffer_toString accent_tail = [0xFFFD] @ js ''\"}}]}'' @ [nl, nl]"
  by (simp add: Buffer_toString_def accent_tail_def ascii_bytes_def
      utf8_step_def utf8_lead_def utf8_idle_def utf16_def js_def nl_def Let_def)

lemma decode_head_tail:
  "Buffer_toString accent_head @ Buffer_toString accent_tail
     = js ''data: '' @ payload_content [0xFFFD, 0xFFFD] @ [nl, nl]"
  by (simp add: decode_head decode_tail payload_content_def js_def)

lemma feed_accent_whole:
  "feed (env\<lparr>JSON_parse := example_parse\<rparr>) cfg stream_init [accent_head @ accent_tail]
     = (stream_init, [Frame (delta_event [(js ''content'', JStr [0xE9])])])"
proof -
  have sp: "split_nl (js ''data: '' @ payload_content [0xE9] @ [nl, nl])
              = [js ''data: '' @ payload_content [0xE9], [], []]"
    using split_line2 [OF no_nl_accent] by simp
  have empty: "on_line (env\<lparr>JSON_parse := example_parse\<rparr>) cfg False [] = (False, [])"
    by (simp add: on_line_def js_def)
  show ?thesis
    by (simp add: on_data_def on_text_def stream_init_def decode_whole sp empty
        on_line_content parse_accent no_done_accent)
qed

lemma feed_accent_split:
  "feed (env\<lparr>JSON_parse := example_parse\<rparr>) cfg stream_init [accent_head, accent_tail]
     = (stream_init, [Frame (delta_event [(js ''content'', JStr [0xFFFD, 0xFFFD])])])"
proof -
  let ?e = "env\<lparr>JSON_parse := example_parse\<rparr>"
  have sp: "split_nl (js ''data: '' @ payload_content [0xFFFD, 0xFFFD] @ [nl, nl])
              = [js ''data: '' @ payload_content [0xFFFD, 0xFFFD], [], []]"
    using split_line2 [OF no_nl_garbled] by simp
  have empty: "on_line ?e cfg False [] = (False, [])"
    by (simp add: on_line_def js_def)
  have "on_text ?e cfg stream_init (Buffer_toString accent_head @ Buffer_toString accent_tail)
          = (stream_init, [Frame (delta_event [(js ''content'', JStr [0xFFFD, 0xFFFD])])])"
    by (simp add: on_text_def stream_init_def decode_head_tail sp empty
        on_line_content parse_garbled no_done_garbled)
  then show ?thesis
    by (simp add: on_data_def on_text_append Let_def split: prod.splits)
qed

text \<open>
  Claim C1 says that an input cut into two chunks at any byte offset gives the same output
  events as the input fed whole. The handler keeps the unfinished line from one chunk to
  the next, but it decodes each chunk on its own (\<^verbatim>\<open>chunk.toString()\<close>, line 135). When the
  cut falls inside a multi-byte UTF-8 character, each half decodes to U+FFFD: the event
  whose content is U+00E9, cut between the bytes C3 and A9, is emitted with the content
  U+FFFD U+FFFD, and fed whole with the content U+00E9. (When the first chunk is ASCII,
  and more generally when the two chunks decode to the halves of the whole text, the
  outputs agree: \<open>feed_split_ascii\<close>, \<open>feed_split_decoded\<close>.)
\<close>

theorem chunk_cut_inside_character:
  "\<forall>env cfg.
     snd (feed (env\<lparr>JSON_parse := example_parse\<rparr>) cfg stream_init [accent_head @ accent_tail])
       = [Frame (delta_event [(js ''content'', JStr [0xE9])])]
     \<and> snd (feed (env\<lparr>JSON_parse := example_parse\<rparr>) cfg stream_init [accent_head, accent_tail])
       = [Frame (delta_event [(js ''content'', JStr [0xFFFD, 0xFFFD])])]
     \<and> snd (feed (env\<lparr>JSON_parse := example_parse\<rparr>) cfg stream_init [accent_head, accent_tail])
       \<noteq> snd (feed (env\<lparr>JSON_parse := example_parse\<rparr>) cfg stream_init [accent_head @ accent_tail])"
  by (simp only: feed_accent_whole feed_accent_split snd_conv) (simp add: delta_event_def)

section \<open>The reasoning splice\<close>

subsection \<open>Display enabled: reasoning, reasoning, content\<close>

lemma first_reasoning:
  "SHOW_REASONING cfg \<Longrightarrow>
   transform_event env cfg False (delta_event [(js ''reasoning_content'', JStr (js ''a''))])
     = Some (delta_event [(js ''content'', JStr (think_open @ js ''a''))], True)"
  by (simp add: transform_event_def delta_event_def delta_of_def splice_def put_delta_def
      js_def think_open_def Let_def)

lemma next_reasoning:
  "SHOW_REASONING cfg \<Longrightarrow>
   transform_event env cfg True (delta_event [(js ''reasoning_content'', JStr (js ''b''))])
     = Some (delta_event [(js ''content'', JStr (js ''b''))], True)"
  by (simp add: transform_event_def delta_event_def delta_of_def splice_def put_delta_def
      js_def Let_def)

lemma closing_content:
  "SHOW_REASONING cfg \<Longrightarrow>
   transform_event env cfg True (delta_event [(js ''content'', JStr (js ''c''))])
     = Some (delta_event [(js ''content'', JStr (think_close @ js ''c''))], False)"
  by (simp add: transform_event_def delta_event_def delta_of_def splice_def put_delta_def
      js_def think_close_def Let_def)

lemma decode_three:
  "Buffer_toString three_deltas_bytes =
     (js ''data: '' @ payload_reasoning (js ''a'')) @ nl # [] @ nl #
     (js ''data: '' @ payload_reasoning (js ''b'')) @ nl # [] @ nl #
     (js ''data: '' @ payload_content (js ''c'')) @ nl # [] @ nl # []"
  by (simp add: Buffer_toString_def three_deltas_bytes_def ascii_bytes_def
      utf8_step_def utf8_lead_def utf8_idle_def js_def payload_content_def payload_reasoning_def
      nl_def Let_def)

lemma split_three:
  "split_nl (Buffer_toString three_deltas_bytes) =
     [js ''data: '' @ payload_reasoning (js ''a''), [],
      js ''data: '' @ payload_reasoning (js ''b''), [],
      js ''data: '' @ payload_content (js ''c''), [], []]"
proof -
  have e: "split_nl (nl # rest) = [] # split_nl rest" for rest
    by simp
  show ?thesis
    unfolding decode_three
    by (simp only: split_nl_line [OF no_nl_payloads(1)] split_nl_line [OF no_nl_payloads(2)]
        split_nl_line [OF no_nl_payloads(3)] e append_Nil split_nl.simps(1))
qed

lemma three_deltas_ascii: "list_all (\<lambda>b. unat b < 128) three_deltas_bytes"
  by (simp add: three_deltas_bytes_def ascii_bytes_def)

lemma three_deltas_nonempty: "three_deltas_bytes \<noteq> []"
  by (simp add: three_deltas_bytes_def ascii_bytes_def)

lemma feed_three_whole:
  assumes "JSON_parse env (payload_reasoning (js ''a''))
             = Some (delta_event [(js ''reasoning_content'', JStr (js ''a''))])"
    and "JSON_parse env (payload_reasoning (js ''b''))
             = Some (delta_event [(js ''reasoning_content'', JStr (js ''b''))])"
    and "JSON_parse env (payload_content (js ''c''))
             = Some (delta_event [(js ''content'', JStr (js ''c''))])"
    and "SHOW_REASONING cfg"
  shows "feed env cfg stream_init [three_deltas_bytes] =
      (stream_init,
       [Frame (delta_event [(js ''content'', JStr (think_open @ js ''a''))]),
        Frame (delta_event [(js ''content'', JStr (js ''b''))]),
        Frame (delta_event [(js ''content'', JStr (think_close @ js ''c''))])])"
  using assms
  by (simp add: on_data_def on_text_def stream_init_def split_three on_line_empty
      on_line_parsed no_done_payloads first_reasoning next_reasoning closing_content)

text \<open>
  Claim C2. With the display toggle enabled, the three delta events reasoning \<^verbatim>\<open>a\<close>,
  reasoning \<^verbatim>\<open>b\<close>, content \<^verbatim>\<open>c\<close>, fed to a fresh stream in any chunking of their bytes, are
  written as three frames whose content fields are the opening marker followed by \<^verbatim>\<open>a\<close>,
  then \<^verbatim>\<open>b\<close> bare, then the closing marker followed by \<^verbatim>\<open>c\<close>: concatenated, the text
  \<^verbatim>\<open><think>\nab</think>\n\nc\<close>. No frame has a reasoning field, and the stream ends with the
  reasoning flag reset. The hypotheses on the parser say what \<^verbatim>\<open>JSON.parse\<close> returns for the
  three payloads.
\<close>

theorem display_on_three_deltas:
  assumes "JSON_parse env (payload_reasoning (js ''a''))
             = Some (delta_event [(js ''reasoning_content'', JStr (js ''a''))])"
    and "JSON_parse env (payload_reasoning (js ''b''))
             = Some (delta_event [(js ''reasoning_content'', JStr (js ''b''))])"
    and "JSON_parse env (payload_content (js ''c''))
             = Some (delta_event [(js ''content'', JStr (js ''c''))])"
    and "SHOW_REASONING cfg"
    and "concat chunks = three_deltas_bytes"
  shows "feed env cfg stream_init chunks =
           (stream_init,
            [Frame (delta_event [(js ''content'', JStr (js ''<think>'' @ [nl] @ js ''a''))]),
             Frame (delta_event [(js ''content'', JStr (js ''b''))]),
             Frame (delta_event [(js ''content'', JStr (js ''</think>'' @ [nl, nl] @ js ''c''))])])
         \<and> concat (map frame_content (snd (feed env cfg stream_init chunks)))
             = js ''<think>'' @ [nl] @ js ''ab</think>'' @ [nl, nl] @ js ''c''
         \<and> \<not> list_ex frame_has_reasoning (snd (feed env cfg stream_init chunks))"
proof -
  have ne: "chunks \<noteq> []"
    using assms(5) three_deltas_nonempty by auto
  have "feed env cfg stream_init chunks = feed env cfg stream_init [three_deltas_bytes]"
    using feed_chunks_ascii [OF ne, of env cfg stream_init] three_deltas_ascii assms(5) by simp
  then have f: "feed env cfg stream_init chunks =
           (stream_init,
            [Frame (delta_event [(js ''content'', JStr (js ''<think>'' @ [nl] @ js ''a''))]),
             Frame (delta_event [(js ''content'', JStr (js ''b''))]),
             Frame (delta_event [(js ''content'', JStr (js ''</think>'' @ [nl, nl] @ js ''c''))])])"
    using feed_three_whole [OF assms(1-4)] by (simp add: think_open_def think_close_def)
  show ?thesis
    unfolding f by (simp add: delta_of_delta_event) (simp add: js_def)
qed

theorem display_on_three_deltas_witness:
  "\<forall>env.
     JSON_parse (env\<lparr>JSON_parse := example_parse\<rparr>) (payload_reasoning (js ''a''))
       = Some (delta_event [(js ''reasoning_content'', JStr (js ''a''))])
     \<and> JSON_parse (env\<lparr>JSON_parse := example_parse\<rparr>) (payload_reasoning (js ''b''))
       = Some (delta_event [(js ''reasoning_content'', JStr (js ''b''))])
     \<and> JSON_parse (env\<lparr>JSON_parse := example_parse\<rparr>) (payload_content (js ''c''))
       = Some (delta_event [(js ''content'', JStr (js ''c''))])
     \<and> SHOW_REASONING display_on
     \<and> concat [take 40 three_deltas_bytes, drop 40 three_deltas_bytes] = three_deltas_bytes
     \<and> concat (map frame_content
          (snd (feed (env\<lparr>JSON_parse := example_parse\<rparr>) display_on stream_init
                 [take 40 three_deltas_bytes, drop 40 three_deltas_bytes])))
         = js ''<think>'' @ [nl] @ js ''ab</think>'' @ [nl, nl] @ js ''c''
     \<and> \<not> list_ex frame_has_reasoning
          (snd (feed (env\<lparr>JSON_parse := example_parse\<rparr>) display_on stream_init
                 [take 40 three_deltas_bytes, drop 40 three_deltas_bytes]))"
proof
  fix env :: js_env
  let ?e = "env\<lparr>JSON_parse := example_parse\<rparr>"
  have p: "JSON_parse ?e (payload_reasoning (js ''a''))
             = Some (delta_event [(js ''reasoning_content'', JStr (js ''a''))])"
     "JSON_parse ?e (payload_reasoning (js ''b''))
             = Some (delta_event [(js ''reasoning_content'', JStr (js ''b''))])"
     "JSON_parse ?e (payload_content (js ''c''))
             = Some (delta_event [(js ''content'', JStr (js ''c''))])"
    by (simp_all add: parse_examples)
  have s: "SHOW_REASONING display_on" by (simp add: display_on_def)
  have c: "concat [take 40 three_deltas_bytes, drop 40 three_deltas_bytes] = three_deltas_bytes"
    by simp
  from display_on_three_deltas [OF p s c] p s c
  show "JSON_parse ?e (payload_reasoning (js ''a''))
       = Some (delta_event [(js ''reasoning_content'', JStr (js ''a''))])
     \<and> JSON_parse ?e (payload_reasoning (js ''b''))
       = Some (delta_event [(js ''reasoning_content'', JStr (js ''b''))])
     \<and> JSON_parse ?e (payload_content (js ''c''))
       = Some (delta_event [(js ''content'', JStr (js ''c''))])
     \<and> SHOW_REASONING display_on
     \<and> concat [take 40 three_deltas_bytes, drop 40 three_deltas_bytes] = three_deltas_bytes
     \<and> concat (map frame_content
          (snd (feed ?e display_on stream_init
                 [take 40 three_deltas_bytes, drop 40 three_deltas_bytes])))
         = js ''<think>'' @ [nl] @ js ''ab</think>'' @ [nl, nl] @ js ''c''
     \<and> \<not> list_ex frame_has_reasoning
          (snd (feed ?e display_on stream_init
                 [take 40 three_deltas_bytes, drop 40 three_deltas_bytes]))"
    by blast
qed

subsection \<open>Display disabled: the content field\<close>

lemma get_set_prop: "get_prop (set_prop (JObj kvs) k w) k = w"
  by (simp add: update_conv')

lemma delta_of_put_delta:
  assumes "truthy (delta_of data)"
  shows "delta_of (put_delta data d) = d"
proof -
  from assms obtain kvs where data: "data = JObj kvs"
    by (cases data) (auto simp: delta_of_def)
  define ch where "ch = get_prop (JObj kvs) (js ''choices'')"
  from assms data obtain xkvs where x: "index0 ch = JObj xkvs"
    by (cases "index0 ch") (auto simp: delta_of_def ch_def)
  have put: "index0 (put_index0 ch w) = w" for w
    using x by (cases ch rule: index0.cases) (auto simp: update_conv')
  have "delta_of (put_delta data d)
          = get_prop_opt (index0 (put_index0 ch (set_prop (JObj xkvs) (js ''delta'') d))) (js ''delta'')"
    unfolding delta_of_def put_delta_def Let_def data get_set_prop ch_def [symmetric] x ..
  also have "\<dots> = d"
    unfolding put by (simp add: update_conv')
  finally show ?thesis .
qed

lemma delta_object_not_null:
  "delta_of data = JObj props \<Longrightarrow> data \<noteq> JNull \<and> data \<noteq> JUndefined"
  by (auto simp: delta_of_def)

lemma splice_display_off:
  "\<not> SHOW_REASONING cfg \<Longrightarrow>
   splice env cfg s (JObj props) =
     (JObj (AList.delete (js ''reasoning_content'')
        (AList.update (js ''content'')
          (if truthy (get_prop (JObj props) (js ''content''))
           then get_prop (JObj props) (js ''content'') else JStr []) props)), s)"
  by (simp add: splice_def Let_def)

lemma content_ne_reasoning: "js ''content'' \<noteq> js ''reasoning_content''"
  by (simp add: js_def)

lemma get_after_delete_update:
  "k \<noteq> r \<Longrightarrow> get_prop (JObj (AList.delete r (AList.update k v props))) k = v"
  by (simp add: delete_conv' update_conv')

lemma has_after_delete: "\<not> has_prop (JObj (AList.delete r props)) r"
  by (simp add: delete_conv')

lemma display_off_frame:
  assumes "JSON_parse env payload = Some data"
    and "\<not> str_includes payload (js ''[DONE]'')"
    and "delta_of data = JObj props"
    and "\<not> SHOW_REASONING cfg"
  shows "\<exists>data'. on_line env cfg started (js ''data: '' @ payload) = (started, [Frame data'])
           \<and> get_prop (delta_of data') (js ''content'')
               = (if truthy (get_prop (JObj props) (js ''content''))
                  then get_prop (JObj props) (js ''content'') else JStr [])
           \<and> \<not> has_prop (delta_of data') (js ''reasoning_content'')"
proof -
  let ?c = "if truthy (get_prop (JObj props) (js ''content''))
            then get_prop (JObj props) (js ''content'') else JStr []"
  let ?d = "JObj (AList.delete (js ''reasoning_content'') (AList.update (js ''content'') ?c props))"
  have t: "truthy (delta_of data)" using assms(3) by simp
  have "transform_event env cfg started data = Some (put_delta data ?d, started)"
    using assms(3,4) delta_object_not_null [OF assms(3)]
    by (simp add: transform_event_def splice_display_off del: get_prop.simps)
  then have "on_line env cfg started (js ''data: '' @ payload) = (started, [Frame (put_delta data ?d)])"
    using on_line_parsed [OF assms(1,2), of cfg started] by simp
  moreover have "delta_of (put_delta data ?d) = ?d"
    by (rule delta_of_put_delta [OF t])
  moreover have "get_prop ?d (js ''content'') = ?c"
    by (rule get_after_delete_update [OF content_ne_reasoning])
  moreover have "\<not> has_prop ?d (js ''reasoning_content'')"
    by (rule has_after_delete)
  ultimately show ?thesis by (metis (no_types))
qed

text \<open>
  Claim C3, amended. With the display toggle disabled, for every parsed event whose delta
  is an object, the handler writes one frame whose delta has as content the content of
  the input when that value is truthy, and the empty string when it is absent or falsy
  (the empty string, \<^verbatim>\<open>null\<close>, \<^verbatim>\<open>false\<close>, 0); the frame's delta has no reasoning field, and
  the reasoning flag is unchanged. So a string content, empty or not, is passed through
  as it is, and a \<^verbatim>\<open>null\<close> content is not.
\<close>

theorem display_off_content:
  assumes "JSON_parse env payload = Some data"
    and "\<not> str_includes payload (js ''[DONE]'')"
    and "delta_of data = JObj props"
    and "\<not> SHOW_REASONING cfg"
  shows "\<exists>data'. on_line env cfg started (js ''data: '' @ payload) = (started, [Frame data'])
           \<and> get_prop (delta_of data') (js ''content'')
               = (if truthy (get_prop (JObj props) (js ''content''))
                  then get_prop (JObj props) (js ''content'') else JStr [])
           \<and> \<not> has_prop (delta_of data') (js ''reasoning_content'')"
  using assms by (rule display_off_frame)

theorem display_off_content_witness:
  "\<forall>env started.
     JSON_parse (env\<lparr>JSON_parse := example_parse\<rparr>) (payload_content (js ''Hi''))
       = Some (delta_event [(js ''content'', JStr (js ''Hi''))])
     \<and> \<not> str_includes (payload_content (js ''Hi'')) (js ''[DONE]'')
     \<and> delta_of (delta_event [(js ''content'', JStr (js ''Hi''))]) = JObj [(js ''content'', JStr (js ''Hi''))]
     \<and> \<not> SHOW_REASONING source_config
     \<and> (\<exists>data'. on_line (env\<lparr>JSON_parse := example_parse\<rparr>) source_config started
                    (js ''data: '' @ payload_content (js ''Hi'')) = (started, [Frame data'])
           \<and> get_prop (delta_of data') (js ''content'') = JStr (js ''Hi'')
           \<and> \<not> has_prop (delta_of data') (js ''reasoning_content''))"
proof (intro allI)
  fix env :: js_env and started :: bool
  let ?e = "env\<lparr>JSON_parse := example_parse\<rparr>"
  have p: "JSON_parse ?e (payload_content (js ''Hi''))
             = Some (delta_event [(js ''content'', JStr (js ''Hi''))])"
    by (simp add: parse_examples)
  have d: "delta_of (delta_event [(js ''content'', JStr (js ''Hi''))]) = JObj [(js ''content'', JStr (js ''Hi''))]"
    by (rule delta_of_delta_event)
  have s: "\<not> SHOW_REASONING source_config" by (simp add: source_config_def)
  have t: "get_prop (JObj [(js ''content'', JStr (js ''Hi''))]) (js ''content'') = JStr (js ''Hi'')"
    by simp
  have h: "truthy (JStr (js ''Hi''))" by (simp add: js_def)
  from display_off_content [OF p no_done_more(1) d s, of started] p no_done_more(1) d s
  show "JSON_parse ?e (payload_content (js ''Hi''))
       = Some (delta_event [(js ''content'', JStr (js ''Hi''))])
     \<and> \<not> str_includes (payload_content (js ''Hi'')) (js ''[DONE]'')
     \<and> delta_of (delta_event [(js ''content'', JStr (js ''Hi''))]) = JObj [(js ''content'', JStr (js ''Hi''))]
     \<and> \<not> SHOW_REASONING source_config
     \<and> (\<exists>data'. on_line ?e source_config started
                    (js ''data: '' @ payload_content (js ''Hi'')) = (started, [Frame data'])
           \<and> get_prop (delta_of data') (js ''content'') = JStr (js ''Hi'')
           \<and> \<not> has_prop (delta_of data') (js ''reasoning_content''))"
    unfolding t using h by simp
qed

lemma null_content_event:
  "\<not> SHOW_REASONING cfg \<Longrightarrow>
   transform_event env cfg s (delta_event [(js ''content'', JNull)])
     = Some (delta_event [(js ''content'', JStr [])], s)"
  by (simp add: transform_event_def delta_event_def delta_of_def splice_def put_delta_def
      js_def Let_def)

text \<open>
  The claim as first stated, that the written content is exactly the input's content
  field, fails for the delta \<^verbatim>\<open>{"content":null}\<close>: the frame written has the content
  \<^verbatim>\<open>""\<close>.
\<close>

theorem display_off_null_content_counterexample:
  "\<forall>env started.
     example_parse payload_content_null = Some (delta_event [(js ''content'', JNull)])
     \<and> on_line (env\<lparr>JSON_parse := example_parse\<rparr>) source_config started
          (js ''data: '' @ payload_content_null)
         = (started, [Frame (delta_event [(js ''content'', JStr [])])])
     \<and> get_prop (delta_of (delta_event [(js ''content'', JStr [])])) (js ''content'')
         \<noteq> get_prop (delta_of (delta_event [(js ''content'', JNull)])) (js ''content'')"
proof (intro allI)
  fix env :: js_env and started :: bool
  let ?e = "env\<lparr>JSON_parse := example_parse\<rparr>"
  have p: "JSON_parse ?e payload_content_null = Some (delta_event [(js ''content'', JNull)])"
    by (simp add: parse_examples)
  have s: "\<not> SHOW_REASONING source_config" by (simp add: source_config_def)
  have "on_line ?e source_config started (js ''data: '' @ payload_content_null)
         = (started, [Frame (delta_event [(js ''content'', JStr [])])])"
    using on_line_parsed [OF p no_done_more(3), of source_config started]
    by (simp add: null_content_event [OF s])
  then show "example_parse payload_content_null = Some (delta_event [(js ''content'', JNull)])
     \<and> on_line ?e source_config started (js ''data: '' @ payload_content_null)
         = (started, [Frame (delta_event [(js ''content'', JStr [])])])
     \<and> get_prop (delta_of (delta_event [(js ''content'', JStr [])])) (js ''content'')
         \<noteq> get_prop (delta_of (delta_event [(js ''content'', JNull)])) (js ''content'')"
    by (simp add: parse_examples delta_of_delta_event)
qed

subsection \<open>Removal of the reasoning field\<close>

lemma think_open_nonempty: "think_open \<noteq> []"
  by (simp add: think_open_def js_def)

lemma think_close_nonempty: "think_close \<noteq> []"
  by (simp add: think_close_def js_def)

lemma splice_display_on_removed:
  assumes "SHOW_REASONING cfg"
    and "truthy (get_prop (JObj props) (js ''reasoning_content''))
         \<or> (\<exists>s. get_prop (JObj props) (js ''content'') = JStr s \<and> s \<noteq> [])"
  shows "\<not> has_prop (fst (splice env cfg started (JObj props))) (js ''reasoning_content'')"
  using assms
  by (auto simp: splice_def Let_def think_open_nonempty think_close_nonempty delete_conv'
      simp del: get_prop.simps)

lemma splice_display_on_kept:
  assumes "SHOW_REASONING cfg"
    and "\<not> truthy (get_prop delta (js ''reasoning_content''))"
    and "\<not> truthy (get_prop delta (js ''content''))"
  shows "splice env cfg started delta = (delta, started)"
  using assms by (simp add: splice_def Let_def)

lemma reasoning_removed_display_off:
  assumes "JSON_parse env payload = Some data"
    and "\<not> str_includes payload (js ''[DONE]'')"
    and "delta_of data = JObj props"
    and "\<not> SHOW_REASONING cfg"
  shows "\<not> list_ex frame_has_reasoning (snd (on_line env cfg started (js ''data: '' @ payload)))"
  using display_off_frame [OF assms, of started] by auto

lemma reasoning_removed_display_on:
  assumes "JSON_parse env payload = Some data"
    and "\<not> str_includes payload (js ''[DONE]'')"
    and "delta_of data = JObj props"
    and "SHOW_REASONING cfg"
    and "truthy (get_prop (JObj props) (js ''reasoning_content''))
         \<or> (\<exists>s. get_prop (JObj props) (js ''content'') = JStr s \<and> s \<noteq> [])"
  shows "\<not> list_ex frame_has_reasoning (snd (on_line env cfg started (js ''data: '' @ payload)))"
proof -
  obtain d' s' where sp: "splice env cfg started (JObj props) = (d', s')"
    by (cases "splice env cfg started (JObj props)")
  have no: "\<not> has_prop d' (js ''reasoning_content'')"
    using splice_display_on_removed [OF assms(4,5), of env started] sp by simp
  have t: "truthy (delta_of data)" using assms(3) by simp
  have "transform_event env cfg started data = Some (put_delta data d', s')"
    using assms(3) delta_object_not_null [OF assms(3)] sp
    by (simp add: transform_event_def del: get_prop.simps)
  then have "on_line env cfg started (js ''data: '' @ payload) = (s', [Frame (put_delta data d')])"
    using on_line_parsed [OF assms(1,2), of cfg started] by simp
  then show ?thesis
    using no by (simp add: delta_of_put_delta [OF t])
qed

lemma empty_reasoning_event:
  "SHOW_REASONING cfg \<Longrightarrow>
   transform_event env cfg s (delta_event [(js ''reasoning_content'', JStr [])])
     = Some (delta_event [(js ''reasoning_content'', JStr [])], s)"
  by (simp add: transform_event_def delta_event_def delta_of_def splice_def put_delta_def
      js_def Let_def)

text \<open>
  Claim C4 says that the written event has no reasoning field, whatever the toggle and
  whatever the field's value. With the toggle disabled the field is always deleted
  (\<open>reasoning_removed_display_off\<close>). With the toggle enabled the deletion of line 171 is
  inside \<^verbatim>\<open>if (combinedContent)\<close>: it happens when the reasoning is truthy or the content
  is a non-empty string (\<open>reasoning_removed_display_on\<close>), and not when both are falsy.
  The delta \<^verbatim>\<open>{"reasoning_content":""}\<close> is written back unchanged, reasoning field
  included.
\<close>

theorem display_on_empty_reasoning_kept:
  "\<forall>env started.
     example_parse (payload_reasoning []) = Some (delta_event [(js ''reasoning_content'', JStr [])])
     \<and> on_line (env\<lparr>JSON_parse := example_parse\<rparr>) display_on started
          (js ''data: '' @ payload_reasoning [])
         = (started, [Frame (delta_event [(js ''reasoning_content'', JStr [])])])
     \<and> frame_has_reasoning (Frame (delta_event [(js ''reasoning_content'', JStr [])]))"
proof (intro allI)
  fix env :: js_env and started :: bool
  let ?e = "env\<lparr>JSON_parse := example_parse\<rparr>"
  have p: "JSON_parse ?e (payload_reasoning []) = Some (delta_event [(js ''reasoning_content'', JStr [])])"
    by (simp add: parse_examples)
  have s: "SHOW_REASONING display_on" by (simp add: display_on_def)
  have "on_line ?e display_on started (js ''data: '' @ payload_reasoning [])
         = (started, [Frame (delta_event [(js ''reasoning_content'', JStr [])])])"
    using on_line_parsed [OF p no_done_more(2), of display_on started]
    by (simp add: empty_reasoning_event [OF s])
  then show "example_parse (payload_reasoning []) = Some (delta_event [(js ''reasoning_content'', JStr [])])
     \<and> on_line ?e display_on started (js ''data: '' @ payload_reasoning [])
         = (started, [Frame (delta_event [(js ''reasoning_content'', JStr [])])])
     \<and> frame_has_reasoning (Frame (delta_event [(js ''reasoning_content'', JStr [])]))"
    by (simp add: parse_examples delta_of_delta_event)
qed

section \<open>Model resolution\<close>

lemma mapping_values_truthy: "map_of MODEL_MAPPING m = Some v \<Longrightarrow> v \<noteq> []"
  by (auto simp: MODEL_MAPPING_def js_def split: if_splits)

lemma resolve_mapped:
  assumes "map_of MODEL_MAPPING m = Some v"
  shows "resolve_model env net (JStr m) = (Some (Value (JStr v)), [])"
  using assms mapping_values_truthy [OF assms]
  by (simp add: resolve_model_def mapping_lookup_def)

text \<open>
  In the handler: a chat request whose model is a key of the mapping makes one call to the
  backend, the chat request itself, with the mapped identifier as its model.
\<close>

lemma chat_mapped_model_calls:
  assumes "req_body req = JObj kvs" and "get_prop (JObj kvs) (js ''model'') = JStr m"
    and "map_of MODEL_MAPPING m = Some v"
  shows "snd (chat_completions env cfg net req res) =
           [Chat (nimRequest cfg (Value (JStr v))
              (get_prop (JObj kvs) (js ''messages''))
              (get_prop (JObj kvs) (js ''temperature''))
              (get_prop (JObj kvs) (js ''max_tokens''))
              (get_prop (JObj kvs) (js ''stream'')))]"
  using assms(1,2) resolve_mapped [OF assms(3), of env net]
  by (simp add: chat_completions_def Let_def del: get_prop.simps
      split: sum.splits option.splits)

text \<open>
  Claim C6. For every requested model that is a key of the static mapping, the resolver
  returns the mapped backend identifier and probes nothing: the list of probes is empty.
\<close>

theorem mapped_model_no_probe:
  assumes "map_of MODEL_MAPPING m = Some v"
  shows "resolve_model env net (JStr m) = (Some (Value (JStr v)), [])"
  using assms by (rule resolve_mapped)

theorem mapped_model_no_probe_witness:
  "\<forall>env net.
     map_of MODEL_MAPPING (js ''gpt-4'') = Some (js ''qwen/qwen3-coder-480b-a35b-instruct'')
     \<and> resolve_model env net (JStr (js ''gpt-4''))
         = (Some (Value (JStr (js ''qwen/qwen3-coder-480b-a35b-instruct''))), [])"
proof -
  have h: "map_of MODEL_MAPPING (js ''gpt-4'') = Some (js ''qwen/qwen3-coder-480b-a35b-instruct'')"
    by (simp add: MODEL_MAPPING_def js_def)
  show ?thesis using h mapped_model_no_probe [OF h] by simp
qed

text \<open>
  A name that is neither a key of the mapping nor a member of \<^verbatim>\<open>Object.prototype\<close>, and whose
  probe fails, gets the default of the first tier its lowercased form matches, after one
  probe.
\<close>

lemma tier_fallback:
  assumes "map_of MODEL_MAPPING m = None" and "m \<notin> set Object_prototype"
    and "probe_fails net (JStr m)"
  shows "resolve_model env net (JStr m) =
     (Some (Value (JStr
        (if str_includes (toLowerCase env m) (js ''gpt-4'')
            \<or> str_includes (toLowerCase env m) (js ''claude-opus'')
            \<or> str_includes (toLowerCase env m) (js ''405b'')
         then js ''meta/llama-3.1-405b-instruct''
         else if str_includes (toLowerCase env m) (js ''claude'')
            \<or> str_includes (toLowerCase env m) (js ''gemini'')
            \<or> str_includes (toLowerCase env m) (js ''70b'')
         then js ''meta/llama-3.1-70b-instruct''
         else js ''meta/llama-3.1-8b-instruct''))), [JStr m])"
  using assms
  by (auto simp: resolve_model_def mapping_lookup_def probe_fails_def Let_def
      split: probe_result.splits)

lemma tier_examples:
  "resolve_model (env\<lparr>toLowerCase := ascii_lower\<rparr>) (failing_probe net) (JStr (js ''Llama-3.1-405B''))
     = (Some (Value (JStr (js ''meta/llama-3.1-405b-instruct''))), [JStr (js ''Llama-3.1-405B'')])"
  "resolve_model (env\<lparr>toLowerCase := ascii_lower\<rparr>) (failing_probe net) (JStr (js ''Claude-Opus-70B''))
     = (Some (Value (JStr (js ''meta/llama-3.1-405b-instruct''))), [JStr (js ''Claude-Opus-70B'')])"
  "resolve_model (env\<lparr>toLowerCase := ascii_lower\<rparr>) (failing_probe net) (JStr (js ''GEMINI-flash''))
     = (Some (Value (JStr (js ''meta/llama-3.1-70b-instruct''))), [JStr (js ''GEMINI-flash'')])"
  "resolve_model (env\<lparr>toLowerCase := ascii_lower\<rparr>) (failing_probe net) (JStr (js ''phi-3''))
     = (Some (Value (JStr (js ''meta/llama-3.1-8b-instruct''))), [JStr (js ''phi-3'')])"
  by (simp_all add: resolve_model_def mapping_lookup_def MODEL_MAPPING_def Object_prototype_def
      failing_probe_def ascii_lower_def js_def)

text \<open>
  Claim C5 says that every name absent from the mapping whose probe fails gets a tier
  default. The lookup of line 77 reads an object literal, so for a name the object inherits
  from \<^verbatim>\<open>Object.prototype\<close>, such as \<^verbatim>\<open>constructor\<close>, it returns the inherited member, which is
  truthy: no probe is made, no tier is chosen, and \<^verbatim>\<open>nimModel\<close> is not a backend identifier.
  For every other absent name the tiers are as the claim says (\<open>tier_fallback\<close>).
\<close>

theorem inherited_name_skips_tiers:
  "\<forall>env net.
     map_of MODEL_MAPPING (js ''constructor'') = None
     \<and> resolve_model env net (JStr (js ''constructor''))
         = (Some (Inherited (js ''constructor'')), [])
     \<and> Inherited (js ''constructor'') \<noteq> Value (JStr (js ''meta/llama-3.1-8b-instruct''))"
  by (simp add: resolve_model_def mapping_lookup_def MODEL_MAPPING_def Object_prototype_def js_def)

section \<open>The backend request\<close>

lemma supplied_value_forwarded:
  "truthy temperature \<Longrightarrow>
     nim_temperature (nimRequest cfg nimModel messages temperature max_tokens stream) = temperature"
  "truthy max_tokens \<Longrightarrow>
     nim_max_tokens (nimRequest cfg nimModel messages temperature max_tokens stream) = max_tokens"
  by (simp_all add: nimRequest_def or_else_def)

lemma absent_value_defaulted:
  "nim_temperature (nimRequest cfg nimModel messages JUndefined max_tokens stream) = JNum (6 / 10)"
  "nim_max_tokens (nimRequest cfg nimModel messages temperature JUndefined stream) = JNum 9024"
  by (simp_all add: nimRequest_def or_else_def)

text \<open>
  Claim C9 says that a supplied temperature or max_tokens is forwarded, a supplied 0
  included. Lines 110 and 111 take the default with \<^verbatim>\<open>||\<close>, so a supplied 0 is replaced:
  temperature 0 becomes 0.6 and max_tokens 0 becomes 9024. Every truthy value is forwarded
  and an absent one gets the default (\<open>supplied_value_forwarded\<close>,
  \<open>absent_value_defaulted\<close>).
\<close>

theorem zero_replaced_by_default:
  "\<forall>cfg nimModel messages temperature max_tokens stream.
     nim_temperature (nimRequest cfg nimModel messages (JNum 0) max_tokens stream) = JNum (6 / 10)
     \<and> nim_max_tokens (nimRequest cfg nimModel messages temperature (JNum 0) stream) = JNum 9024"
  by (simp add: nimRequest_def or_else_def)

section \<open>Routing\<close>

text \<open>
  Claim C7, amended. A request that is not \<^verbatim>\<open>OPTIONS\<close> (a \<^verbatim>\<open>GET\<close> in particular) whose path
  contains \<^verbatim>\<open>/health\<close>, or is exactly \<^verbatim>\<open>/api\<close> or \<^verbatim>\<open>/api/\<close>, is answered with status 200 and the
  body of the four fields \<^verbatim>\<open>status\<close>, \<^verbatim>\<open>service\<close>, \<^verbatim>\<open>reasoning_display\<close> and \<^verbatim>\<open>thinking_mode\<close>,
  the last two being the two toggles; no call to the backend is made.
\<close>

theorem health_route:
  assumes "req_method req \<noteq> js ''OPTIONS''"
    and "str_includes (req_url req) (js ''/health'')
         \<or> req_url req = js ''/api'' \<or> req_url req = js ''/api/''"
  shows "res_status (fst (handler env cfg net req)) = 200
         \<and> res_body (fst (handler env cfg net req)) =
             Json (JObj [(js ''status'', JStr (js ''ok'')),
                         (js ''service'', JStr (js ''OpenAI to NVIDIA NIM Proxy (Vercel)'')),
                         (js ''reasoning_display'', JBool (SHOW_REASONING cfg)),
                         (js ''thinking_mode'', JBool (ENABLE_THINKING_MODE cfg))])
         \<and> snd (handler env cfg net req) = []"
proof -
  have "req_url req \<noteq> []"
    using assms(2) by (auto simp: js_def)
  then show ?thesis
    using assms by (simp add: handler_def Let_def res_json_def health_body_def)
qed

theorem health_route_witness:
  "\<forall>env cfg net b.
     js ''GET'' \<noteq> js ''OPTIONS''
     \<and> str_includes (js ''/health'') (js ''/health'')
     \<and> res_status (fst (handler env cfg net
           \<lparr>req_method = js ''GET'', req_url = js ''/health'', req_body = b\<rparr>)) = 200
     \<and> res_body (fst (handler env cfg net
           \<lparr>req_method = js ''GET'', req_url = js ''/health'', req_body = b\<rparr>)) =
             Json (JObj [(js ''status'', JStr (js ''ok'')),
                         (js ''service'', JStr (js ''OpenAI to NVIDIA NIM Proxy (Vercel)'')),
                         (js ''reasoning_display'', JBool (SHOW_REASONING cfg)),
                         (js ''thinking_mode'', JBool (ENABLE_THINKING_MODE cfg))])"
proof (intro allI)
  fix env :: js_env and cfg :: config and net :: network and b :: jsval
  let ?req = "\<lparr>req_method = js ''GET'', req_url = js ''/health'', req_body = b\<rparr>"
  have m: "req_method ?req \<noteq> js ''OPTIONS''" by (simp add: js_def)
  have u: "str_includes (req_url ?req) (js ''/health'')
         \<or> req_url ?req = js ''/api'' \<or> req_url ?req = js ''/api/''"
    by (simp add: js_def)
  have m': "js ''GET'' \<noteq> js ''OPTIONS''" by (simp add: js_def)
  have u': "str_includes (js ''/health'') (js ''/health'')" by (simp add: js_def)
  from health_route [OF m u, of env cfg net] m' u'
  show "js ''GET'' \<noteq> js ''OPTIONS''
     \<and> str_includes (js ''/health'') (js ''/health'')
     \<and> res_status (fst (handler env cfg net ?req)) = 200
     \<and> res_body (fst (handler env cfg net ?req)) =
             Json (JObj [(js ''status'', JStr (js ''ok'')),
                         (js ''service'', JStr (js ''OpenAI to NVIDIA NIM Proxy (Vercel)'')),
                         (js ''reasoning_display'', JBool (SHOW_REASONING cfg)),
                         (js ''thinking_mode'', JBool (ENABLE_THINKING_MODE cfg))])"
    by blast
qed

text \<open>
  The claim as first stated also gives the path \<^verbatim>\<open>/\<close> to the health route. The handler
  answers \<^verbatim>\<open>GET /\<close> with the 404 envelope.
\<close>

theorem root_path_not_found_counterexample:
  "\<forall>env cfg net b.
     res_status (fst (handler env cfg net
        \<lparr>req_method = js ''GET'', req_url = js ''/'', req_body = b\<rparr>)) = 404
     \<and> res_body (fst (handler env cfg net
        \<lparr>req_method = js ''GET'', req_url = js ''/'', req_body = b\<rparr>))
         = Json (error_body (js ''Endpoint / not found'') 404)"
  by (simp add: handler_def Let_def res_json_def js_def)

subsection \<open>CORS headers\<close>

lemma cors_set: "has_cors (fold (\<lambda>kv r. setHeader r kv) corsHeaders res_init)"
  by (simp add: has_cors_def corsHeaders_def setHeader_def res_init_def js_def)

lemma has_cors_json: "has_cors r \<Longrightarrow> has_cors (res_json r code v)"
  by (simp add: has_cors_def res_json_def)

lemma has_cors_stream:
  "has_cors r \<Longrightarrow>
   has_cors ((setHeader (setHeader (setHeader r
                (js ''Content-Type'', js ''text/event-stream''))
                (js ''Cache-Control'', js ''no-cache''))
                (js ''Connection'', js ''keep-alive''))\<lparr>res_body := b\<rparr>)"
  by (simp add: has_cors_def corsHeaders_def setHeader_def update_conv' js_def)

lemma chat_has_cors:
  assumes "has_cors res" and "chat_completions env cfg net req res = (Inr r, calls)"
  shows "has_cors r"
  using assms
  by (auto simp: chat_completions_def Let_def has_cors_json has_cors_stream
      split: if_splits prod.splits option.splits sum.splits)

lemma cors_on_other_methods:
  assumes "req_method req \<noteq> js ''OPTIONS''"
  shows "has_cors (fst (handler env cfg net req))"
  using assms
  by (auto simp: handler_def Let_def on_error_def has_cors_json cors_set
      split: prod.splits sum.splits dest: chat_has_cors [OF cors_set])

text \<open>
  Claim C8 says that every response carries the three CORS headers, the answer to an
  \<^verbatim>\<open>OPTIONS\<close> request included. The handler returns the answer to \<^verbatim>\<open>OPTIONS\<close> at line 36,
  before it sets the headers at lines 40 to 42: that response has status 200, the body
  \<^verbatim>\<open>{"ok":true}\<close> and no header set by the handler. Every other response carries the three
  headers (\<open>cors_on_other_methods\<close>).
\<close>

theorem options_without_cors_headers:
  "\<forall>env cfg net url b.
     handler env cfg net \<lparr>req_method = js ''OPTIONS'', req_url = url, req_body = b\<rparr>
       = (\<lparr>res_status = 200, res_headers = [], res_body = Json (JObj [(js ''ok'', JBool True)])\<rparr>, [])"
  by (simp add: handler_def res_json_def res_init_def)

end
